theory Spec2Isabelle
  imports Main "HOL-Library.Word" "HOL-Library.AList"
begin

section \<open>The Rancher 1.x exporter: data model\<close>

text \<open>
  A shallow embedding of \<^verbatim>\<open>metrics.go\<close>. Go's \<^verbatim>\<open>uint64\<close> is \<^typ>\<open>64 word\<close>
  (addition and subtraction wrap). Pointers are references into an explicit store, since
  the program copies struct values out of its maps and then writes through the pointer
  they embed. A Go map is itself a reference: the tables live in the store and a struct
  holds the reference of its table. A table is an association list; ranging over it
  visits the entries in list order, which is one of the orders Go may choose.
\<close>

type_synonym u64 = "64 word"

type_synonym ref = nat

subsection \<open>Enumerations (lines 27-31)\<close>

definition agentStates :: "string list" where
  "agentStates = [''activating'', ''active'', ''reconnecting'', ''disconnected'',
     ''disconnecting'', ''finishing-reconnect'', ''reconnected'']"

definition hostStates :: "string list" where
  "hostStates = [''activating'', ''active'', ''deactivating'', ''error'', ''erroring'',
     ''inactive'', ''provisioned'', ''purged'', ''purging'', ''registering'', ''removed'',
     ''removing'', ''requested'', ''restoring'', ''updating_active'', ''updating_inactive'']"

definition stackStates :: "string list" where
  "stackStates = [''activating'', ''active'', ''canceled_upgrade'', ''canceling_upgrade'',
     ''error'', ''erroring'', ''finishing_upgrade'', ''removed'', ''removing'', ''requested'',
     ''restarting'', ''rolling_back'', ''updating_active'', ''upgraded'', ''upgrading'']"

definition serviceStates :: "string list" where
  "serviceStates = [''activating'', ''active'', ''canceled_upgrade'', ''canceling_upgrade'',
     ''deactivating'', ''finishing_upgrade'', ''inactive'', ''registering'', ''removed'',
     ''removing'', ''requested'', ''restarting'', ''rolling_back'', ''updating_active'',
     ''updating_inactive'', ''upgraded'', ''upgrading'']"

definition healthStates :: "string list" where
  "healthStates = [''healthy'', ''unhealthy'']"

subsection \<open>The metric vectors (lines 34-148)\<close>

text \<open>
  The seventeen package-level vectors, named as the variables of the source. A vector maps
  a tuple of label values to the value of that series, when the series exists. The
  Prometheus client stores \<^verbatim>\<open>float64\<close>; every value the exporter writes is the
  conversion of an integer, and the model keeps that integer.
\<close>

datatype vec =
    infinityWorksHostsState
  | infinityWorksHostAgentsState
  | infinityWorksStacksHealth
  | infinityWorksStacksState
  | infinityWorksServicesScale
  | infinityWorksServicesHealth
  | infinityWorksServicesState
  | extendingTotalStackBootstrap
  | extendingTotalStackFailure
  | extendingTotalServiceBootstrap
  | extendingTotalServiceFailure
  | extendingTotalInstanceBootstrap
  | extendingTotalInstanceFailure
  | extendingInstanceBootstrapMsCost
  | extendingStackHeartbeat
  | extendingServiceHeartbeat
  | extendingInstanceHeartbeat

type_synonym series = "string list \<Rightarrow> int option"

type_synonym registry = "vec \<Rightarrow> series"

text \<open>\<^verbatim>\<open>v.WithLabelValues(ls)\<close> alone: the series is created at 0 when it is absent.\<close>

definition WithLabelValues :: "vec \<Rightarrow> string list \<Rightarrow> registry \<Rightarrow> registry" where
  "WithLabelValues v ls r =
     (case r v ls of None \<Rightarrow> r(v := (r v)(ls \<mapsto> 0)) | Some _ \<Rightarrow> r)"

text \<open>\<^verbatim>\<open>v.WithLabelValues(ls).Set(x)\<close>\<close>

definition vec_Set :: "vec \<Rightarrow> string list \<Rightarrow> int \<Rightarrow> registry \<Rightarrow> registry" where
  "vec_Set v ls x r = r(v := (r v)(ls \<mapsto> x))"

text \<open>\<^verbatim>\<open>v.WithLabelValues(ls).Add(x)\<close> and \<^verbatim>\<open>.Inc()\<close>\<close>

definition vec_Add :: "vec \<Rightarrow> string list \<Rightarrow> int \<Rightarrow> registry \<Rightarrow> registry" where
  "vec_Add v ls x r =
     r(v := (r v)(ls \<mapsto> (case r v ls of None \<Rightarrow> 0 | Some c \<Rightarrow> c) + x))"

definition vec_Inc :: "vec \<Rightarrow> string list \<Rightarrow> registry \<Rightarrow> registry" where
  "vec_Inc v ls r = vec_Add v ls 1 r"

text \<open>\<^verbatim>\<open>v.Reset()\<close> deletes every series of the vector.\<close>

definition vec_Reset :: "vec \<Rightarrow> registry \<Rightarrow> registry" where
  "vec_Reset v r = r(v := Map.empty)"

text \<open>The value a scrape of the exporter shows for a series; an absent series shows nothing
  and counts as 0 in a sum.\<close>

definition shown :: "registry \<Rightarrow> vec \<Rightarrow> string list \<Rightarrow> int" where
  "shown r v ls = (case r v ls of None \<Rightarrow> 0 | Some c \<Rightarrow> c)"

text \<open>\<^verbatim>\<open>strconv.FormatBool\<close>\<close>

definition FormatBool :: "bool \<Rightarrow> string" where
  "FormatBool b = (if b then ''true'' else ''false'')"

text \<open>
  The loop \<^verbatim>\<open>for _, y := range ys { if s == y { v...Set(1) } else { v...Set(0) } }\<close>
  that the source writes six times; \<open>mk y\<close> is the label tuple with \<open>y\<close> in its place.
\<close>

definition set_each :: "vec \<Rightarrow> (string \<Rightarrow> string list) \<Rightarrow> string list \<Rightarrow> string
    \<Rightarrow> registry \<Rightarrow> registry" where
  "set_each v mk ys s r =
     foldl (\<lambda>r y. if s = y then vec_Set v (mk y) 1 r else vec_Set v (mk y) 0 r) r ys"

subsection \<open>Structs (lines 216-275, 395-400, 548-551, 696-699)\<close>

record object =
  objId :: string
  Name :: string
  State :: string
  Type :: string
  BootstrapCount :: u64
  FailureCount :: u64

text \<open>
  \<^verbatim>\<open>parent\<close> points to the copy of the parent struct that the fetching goroutine holds;
  that copy is never assigned to, so the model stores its value.
\<close>

record project =
  project_object :: ref
  project_Stacks :: ref

record stack =
  stack_object :: ref
  stack_Services :: ref
  stack_System :: bool
  stack_parent :: project

record service =
  service_object :: ref
  service_Instances :: ref
  service_System :: bool
  service_parent :: stack

record instance_struct =
  instance_object :: ref
  instance_System :: bool
  instance_StartupTime :: u64
  instance_parent :: service

text \<open>
  A project decoded from JSON (\<^verbatim>\<open>resourceData\<close>) has the same Go types; it shares
  nothing with the model and is only read, so it is a value. Its embedded
  \<^verbatim>\<open>*object\<close> pointers may be nil.
\<close>

record decoded_instance =
  di_object :: "object option"
  di_System :: bool
  di_StartupTime :: u64

record decoded_service =
  ds_object :: "object option"
  ds_Instances :: "(string \<times> decoded_instance) list"
  ds_System :: bool

record decoded_stack =
  dk_object :: "object option"
  dk_Services :: "(string \<times> decoded_service) list"
  dk_System :: bool

record decoded_project =
  dp_object :: "object option"
  dp_Stacks :: "(string \<times> decoded_stack) list"

record targetData =
  dHealthState :: string
  dKey :: string
  dName :: string
  dState :: string
  dSystem :: bool
  dScale :: int
  dHostName :: string
  dID :: string
  dStackID :: string
  dEnvID :: string
  dType :: string
  dAgentState :: string
  dCreatedTS :: u64
  dFirstRunningTS :: u64
  dResourceData :: "decoded_project option"

record targetPagination =
  Next :: string

text \<open>\<^verbatim>\<open>Data []*targetData\<close>: an entry may be nil; so may \<^verbatim>\<open>Pagination\<close>.\<close>

record target =
  Data :: "targetData option list"
  Pagination :: "targetPagination option"

subsection \<open>The store\<close>

text \<open>
  \<open>history\<close> is not in the source. It records, for every child the walker observes, the
  object it found for that name (if any) and the observed entry; no definition reads it.
\<close>

record world =
  objects :: "ref \<Rightarrow> object"
  stack_maps :: "ref \<Rightarrow> (string \<times> stack) list"
  service_maps :: "ref \<Rightarrow> (string \<times> service) list"
  instance_maps :: "ref \<Rightarrow> (string \<times> instance_struct) list"
  fresh :: ref
  Projects :: "(string \<times> project) list"
  vecs :: registry
  history :: "(object option \<times> targetData) list"

text \<open>Package-level configuration, declared outside \<^verbatim>\<open>metrics.go\<close>.\<close>

record config =
  cattleURL :: string
  hideSys :: bool
  genObjName :: string

definition genericobjectKind :: string where
  "genericobjectKind = ''rancherMetrics''"

subsection \<open>Store operations\<close>

text \<open>A write through a pointer, as in \<^verbatim>\<open>take.State = ...\<close> with \<^verbatim>\<open>take.object\<close> = \<open>p\<close>.\<close>

definition upd_object :: "ref \<Rightarrow> (object \<Rightarrow> object) \<Rightarrow> world \<Rightarrow> world" where
  "upd_object p f st = st\<lparr>objects := (objects st)(p := f (objects st p))\<rparr>"

text \<open>An operation on the package-level vectors.\<close>

definition reg :: "(registry \<Rightarrow> registry) \<Rightarrow> world \<Rightarrow> world" where
  "reg f st = st\<lparr>vecs := f (vecs st)\<rparr>"

text \<open>\<^verbatim>\<open>&object{...}\<close>: a new cell of the store.\<close>

definition new_object :: "object \<Rightarrow> world \<Rightarrow> ref \<times> world" where
  "new_object x st =
     (fresh st, st\<lparr>objects := (objects st)(fresh st := x), fresh := Suc (fresh st)\<rparr>)"

text \<open>\<^verbatim>\<open>make(map[string]stack, 100)\<close> and its two siblings: a new empty table.\<close>

definition make_stack_map :: "world \<Rightarrow> ref \<times> world" where
  "make_stack_map st =
     (fresh st, st\<lparr>stack_maps := (stack_maps st)(fresh st := []), fresh := Suc (fresh st)\<rparr>)"

definition make_service_map :: "world \<Rightarrow> ref \<times> world" where
  "make_service_map st =
     (fresh st, st\<lparr>service_maps := (service_maps st)(fresh st := []), fresh := Suc (fresh st)\<rparr>)"

definition make_instance_map :: "world \<Rightarrow> ref \<times> world" where
  "make_instance_map st =
     (fresh st, st\<lparr>instance_maps := (instance_maps st)(fresh st := []), fresh := Suc (fresh st)\<rparr>)"

text \<open>The ghost record of one observation.\<close>

definition note_seen :: "object option \<Rightarrow> targetData \<Rightarrow> world \<Rightarrow> world" where
  "note_seen prev d st = st\<lparr>history := history st @ [(prev, d)]\<rparr>"

section \<open>The API client (lines 176-211)\<close>

text \<open>
  What the HTTP layer does with one GET, seen from \<^verbatim>\<open>rancherClient.get\<close>:
  \<^verbatim>\<open>http.NewRequest\<close> fails and \<^verbatim>\<open>req\<close> is nil; or \<^verbatim>\<open>r.client.Do\<close> fails and
  \<^verbatim>\<open>resp\<close> is nil; or there is a response, whose body the JSON decoder accepts or
  rejects. In both of the last cases \<open>t\<close> is the target as far as the decoder filled it.
\<close>

datatype http_reply =
    NewRequestError
  | DoError
  | Decoded target
  | DecodeError target

datatype panic = NilPointerDereference

text \<open>
  Lines 176-195. Both errors are logged and execution goes on: with a nil \<^verbatim>\<open>req\<close> the
  call \<^verbatim>\<open>req.SetBasicAuth\<close> dereferences nil, with a nil \<^verbatim>\<open>resp\<close> the statement
  \<^verbatim>\<open>defer resp.Body.Close()\<close> does. A decode error is logged and \<^verbatim>\<open>&t\<close> returned.
\<close>

definition get :: "(string \<Rightarrow> http_reply) \<Rightarrow> string \<Rightarrow> panic + target" where
  "get api url =
     (case api url of
        NewRequestError \<Rightarrow> Inl NilPointerDereference
      | DoError \<Rightarrow> Inl NilPointerDereference
      | Decoded t \<Rightarrow> Inr t
      | DecodeError t \<Rightarrow> Inr t)"

text \<open>
  How a function body ends: it returns, or a panic unwinds it. The store is kept either
  way. A \<^verbatim>\<open>recover()\<close> in a deferred function of the same goroutine stops a panic; a
  panic that leaves a goroutine ends the process.
\<close>

datatype outcome = Returned world | Panicked world

fun world_of :: "outcome \<Rightarrow> world" where
  "world_of (Returned st) = st"
| "world_of (Panicked st) = st"

section \<open>The transition accountant\<close>

text \<open>
  Lines 607-630 (stacks, in \<^verbatim>\<open>project.fetch\<close>) and 459-482 (services, in
  \<^verbatim>\<open>stack.fetch\<close>) are the same text up to the two counter vectors and the label
  tuple: the branch for a name that is in the table. \<open>p\<close> is \<^verbatim>\<open>take.object\<close>. The last
  assignment, \<^verbatim>\<open>take.System = d.System\<close>, writes the field of the local copy
  \<^verbatim>\<open>take\<close>, which is not stored back, so it changes nothing in the store.
\<close>

definition take_branch :: "vec \<Rightarrow> vec \<Rightarrow> string list \<Rightarrow> ref \<Rightarrow> targetData \<Rightarrow> world \<Rightarrow> world" where
  "take_branch bootstrap failure ls p d st =
     (let st = note_seen (Some (objects st p)) d st;
          st =
            (if State (objects st p) \<noteq> dState d then
               (if dState d = ''active'' then
                  (let st = reg (vec_Inc bootstrap ls) st;
                       st = upd_object p (\<lambda>x. x\<lparr>BootstrapCount := BootstrapCount x + 1\<rparr>) st
                   in if dHealthState d = ''unhealthy'' then
                        (let st = reg (vec_Inc failure ls) st
                         in upd_object p (\<lambda>x. x\<lparr>FailureCount := FailureCount x + 1\<rparr>) st)
                      else st)
                else if dState d = ''error'' then
                  (let st = reg (vec_Inc bootstrap ls) st;
                       st = upd_object p (\<lambda>x. x\<lparr>BootstrapCount := BootstrapCount x + 1\<rparr>) st;
                       st = reg (vec_Inc failure ls) st
                   in upd_object p (\<lambda>x. x\<lparr>FailureCount := FailureCount x + 1\<rparr>) st)
                else st)
             else st);
          st = upd_object p (\<lambda>x. x\<lparr>objId := dID d\<rparr>) st;
          st = upd_object p (\<lambda>x. x\<lparr>Type := dType d\<rparr>) st
      in upd_object p (\<lambda>x. x\<lparr>State := dState d\<rparr>) st)"

text \<open>
  Lines 632-654 and 484-506: the switch of the branch for a new name. It yields
  \<^verbatim>\<open>bootstrapCount\<close> and \<^verbatim>\<open>failureCount\<close>.
\<close>

definition else_switch :: "vec \<Rightarrow> vec \<Rightarrow> string list \<Rightarrow> targetData \<Rightarrow> world \<Rightarrow> (u64 \<times> u64) \<times> world" where
  "else_switch bootstrap failure ls d st =
     (let st = note_seen None d st
      in if dState d = ''active'' then
           (let st = reg (vec_Inc bootstrap ls) st
            in if dHealthState d = ''unhealthy'' then
                 ((1, 1), reg (vec_Inc failure ls) st)
               else ((1, 0), reg (WithLabelValues failure ls) st))
         else if dState d = ''error'' then
           ((1, 1), reg (vec_Inc failure ls) (reg (vec_Inc bootstrap ls) st))
         else
           ((0, 0), reg (WithLabelValues failure ls) (reg (WithLabelValues bootstrap ls) st)))"

section \<open>\<^verbatim>\<open>service.fetch\<close> (lines 277-390)\<close>

text \<open>Lines 313-338: the instance is in the table. \<^verbatim>\<open>take.StartupTime\<close> and
  \<^verbatim>\<open>take.System\<close> are fields of the local copy and are not stored back.\<close>

definition service_fetch_take :: "string list \<Rightarrow> ref \<Rightarrow> targetData \<Rightarrow> world \<Rightarrow> world" where
  "service_fetch_take ls p d st =
     (let st = note_seen (Some (objects st p)) d st;
          st =
            (if State (objects st p) \<noteq> dState d then
               (if dState d = ''running'' then
                  (let st = (if dFirstRunningTS d \<noteq> 0 then
                               reg (vec_Set extendingInstanceBootstrapMsCost ls
                                      (uint (dFirstRunningTS d - dCreatedTS d))) st
                             else st);
                       st = reg (vec_Inc extendingTotalInstanceBootstrap ls) st
                   in upd_object p (\<lambda>x. x\<lparr>BootstrapCount := BootstrapCount x + 1\<rparr>) st)
                else if dState d = ''error'' then
                  (let st = reg (vec_Inc extendingTotalInstanceBootstrap ls) st;
                       st = upd_object p (\<lambda>x. x\<lparr>BootstrapCount := BootstrapCount x + 1\<rparr>) st;
                       st = reg (vec_Inc extendingTotalInstanceFailure ls) st
                   in upd_object p (\<lambda>x. x\<lparr>FailureCount := FailureCount x + 1\<rparr>) st)
                else st)
             else st);
          st = upd_object p (\<lambda>x. x\<lparr>objId := dID d\<rparr>) st;
          st = upd_object p (\<lambda>x. x\<lparr>Type := dType d\<rparr>) st
      in upd_object p (\<lambda>x. x\<lparr>State := dState d\<rparr>) st)"

text \<open>Lines 340-364: the switch for a new instance. It yields \<^verbatim>\<open>bootstrapCount\<close>,
  \<^verbatim>\<open>failureCount\<close> and \<^verbatim>\<open>instanceStartupTime\<close>.\<close>

definition service_fetch_switch :: "string list \<Rightarrow> targetData \<Rightarrow> world \<Rightarrow> (u64 \<times> u64 \<times> u64) \<times> world" where
  "service_fetch_switch ls d st =
     (let st = note_seen None d st
      in if dState d = ''error'' then
           ((1, 1, 0), reg (vec_Inc extendingTotalInstanceFailure ls)
                         (reg (vec_Inc extendingTotalInstanceBootstrap ls) st))
         else if dState d = ''stopped'' \<or> dState d = ''running'' then
           (let instanceStartupTime =
                  (if dFirstRunningTS d \<noteq> 0 then dFirstRunningTS d - dCreatedTS d else 0);
                st = (if dFirstRunningTS d \<noteq> 0 then
                        reg (vec_Set extendingInstanceBootstrapMsCost ls (uint instanceStartupTime)) st
                      else st);
                st = reg (vec_Inc extendingTotalInstanceBootstrap ls) st
            in ((1, 0, instanceStartupTime), reg (WithLabelValues extendingTotalInstanceFailure ls) st))
         else
           ((0, 0, 0), reg (WithLabelValues extendingTotalInstanceFailure ls)
                         (reg (WithLabelValues extendingTotalInstanceBootstrap ls) st)))"

text \<open>Lines 303-311: the label tuple of the instance series.\<close>

definition service_fetch_labels :: "service \<Rightarrow> targetData \<Rightarrow> world \<Rightarrow> string list" where
  "service_fetch_labels recv d st =
     (let instanceName = dName d;
          instanceSystem = FormatBool (dSystem d);
          instanceType = dType d;
          serviceName = Name (objects st (service_object recv));
          stackName = Name (objects st (stack_object (service_parent recv)));
          envName = Name (objects st (project_object (stack_parent (service_parent recv))))
      in [envName, stackName, serviceName, instanceName, instanceSystem, instanceType])"

text \<open>Lines 340-378: the instance is new; the switch, then the insertion.\<close>

definition service_fetch_new :: "service \<Rightarrow> string list \<Rightarrow> targetData \<Rightarrow> world \<Rightarrow> world" where
  "service_fetch_new recv ls d st =
     (let ((bootstrapCount, failureCount, instanceStartupTime), st) = service_fetch_switch ls d st;
          (p, st) = new_object \<lparr>objId = dID d, Name = dName d, State = dState d,
                      Type = dType d, BootstrapCount = bootstrapCount,
                      FailureCount = failureCount\<rparr> st;
          ins = \<lparr>instance_object = p, instance_System = dSystem d,
                  instance_StartupTime = instanceStartupTime, instance_parent = recv\<rparr>
      in st\<lparr>instance_maps := (instance_maps st)(service_Instances recv :=
              AList.update (dName d) ins (instance_maps st (service_Instances recv)))\<rparr>)"

text \<open>Lines 295-379: the body of the loop over \<^verbatim>\<open>t.Data\<close>, for a non-nil entry.\<close>

definition service_fetch_item :: "service \<Rightarrow> targetData \<Rightarrow> world \<Rightarrow> world" where
  "service_fetch_item recv d st =
     (let ls = service_fetch_labels recv d st;
          st = reg (vec_Set extendingInstanceHeartbeat ls 1) st
      in case map_of (instance_maps st (service_Instances recv)) (dName d) of
           Some take' \<Rightarrow> service_fetch_take ls (instance_object take') d st
         | None \<Rightarrow> service_fetch_new recv ls d st)"

text \<open>The loop over \<^verbatim>\<open>t.Data\<close>; reading a field of a nil entry panics.\<close>

fun service_fetch_items :: "service \<Rightarrow> targetData option list \<Rightarrow> world \<Rightarrow> outcome" where
  "service_fetch_items recv [] st = Returned st"
| "service_fetch_items recv (None # ds) st = Panicked st"
| "service_fetch_items recv (Some d # ds) st = service_fetch_items recv ds (service_fetch_item recv d st)"

text \<open>
  Lines 292-387: the loop over the pages. Nothing bounds it: a server whose \<^verbatim>\<open>next\<close>
  links never end keeps it running. \<open>n\<close> bounds the pages read; \<open>None\<close> is a loop that
  did not end within \<open>n\<close> pages.
\<close>

fun service_fetch_pages :: "(string \<Rightarrow> http_reply) \<Rightarrow> nat \<Rightarrow> service \<Rightarrow> string \<Rightarrow> world \<Rightarrow> outcome option" where
  "service_fetch_pages api 0 recv url st = None"
| "service_fetch_pages api (Suc n) recv url st =
     (case get api url of
        Inl _ \<Rightarrow> Some (Panicked st)
      | Inr t \<Rightarrow>
          (case service_fetch_items recv (Data t) st of
             Panicked st \<Rightarrow> Some (Panicked st)
           | Returned st \<Rightarrow>
               (case Pagination t of
                  None \<Rightarrow> Some (Panicked st)
                | Some pg \<Rightarrow>
                    if length (Next pg) \<noteq> 0 then service_fetch_pages api n recv (Next pg) st
                    else Some (Returned st))))"

text \<open>Lines 277-390. The deferred \<^verbatim>\<open>recover()\<close> logs a panic and the function returns.\<close>

definition service_fetch :: "config \<Rightarrow> (string \<Rightarrow> http_reply) \<Rightarrow> nat \<Rightarrow> service \<Rightarrow> world \<Rightarrow> world option" where
  "service_fetch cfg api n recv st =
     (if length (objId (objects st (service_object recv))) = 0 then Some st
      else
        (case service_fetch_pages api n recv
                (cattleURL cfg @ ''/services/'' @ objId (objects st (service_object recv))
                   @ ''/instances?limit=100&sort=id'') st of
           None \<Rightarrow> None
         | Some (Panicked st) \<Rightarrow> Some st
         | Some (Returned st) \<Rightarrow> Some st))"

text \<open>The goroutines started over \<^verbatim>\<open>o.Services\<close> (lines 531-540), one after the other;
  \<^verbatim>\<open>wg.Wait()\<close> returns when all of them have.\<close>

fun fetch_services :: "config \<Rightarrow> (string \<Rightarrow> http_reply) \<Rightarrow> nat \<Rightarrow> service list \<Rightarrow> world \<Rightarrow> world option" where
  "fetch_services cfg api n [] st = Some st"
| "fetch_services cfg api n (svc # svcs) st =
     (case service_fetch cfg api n svc st of
        None \<Rightarrow> None
      | Some st \<Rightarrow> fetch_services cfg api n svcs st)"

section \<open>\<^verbatim>\<open>stack.fetch\<close> (lines 402-543)\<close>

text \<open>Lines 426-437 and 457: the label tuple of the service series.\<close>

definition stack_fetch_labels :: "stack \<Rightarrow> targetData \<Rightarrow> world \<Rightarrow> string list" where
  "stack_fetch_labels recv d st =
     (let serviceName = dName d;
          serviceSystem = FormatBool (dSystem d);
          serviceType = dType d;
          stackName = Name (objects st (stack_object recv));
          envName = Name (objects st (project_object (stack_parent recv)))
      in [envName, stackName, serviceName, serviceSystem, serviceType])"

text \<open>Lines 439-457: scale, health, state and heartbeat of the service.\<close>

definition stack_fetch_gauges :: "stack \<Rightarrow> targetData \<Rightarrow> world \<Rightarrow> world" where
  "stack_fetch_gauges recv d st =
     (let serviceHealthState = dHealthState d;
          serviceState = dState d;
          serviceId = dID d;
          serviceName = dName d;
          serviceSystem = FormatBool (dSystem d);
          stackName = Name (objects st (stack_object recv));
          stackId = objId (objects st (stack_object recv));
          ls = stack_fetch_labels recv d st;
          st = reg (vec_Set infinityWorksServicesScale [serviceName, stackName, serviceSystem] (dScale d)) st;
          st = reg (set_each infinityWorksServicesHealth
                      (\<lambda>y. [serviceId, stackId, serviceName, stackName, y, serviceSystem])
                      healthStates serviceHealthState) st;
          st = reg (set_each infinityWorksServicesState
                      (\<lambda>y. [serviceId, stackId, serviceName, stackName, y, serviceSystem])
                      serviceStates serviceState) st
      in reg (vec_Set extendingServiceHeartbeat ls 1) st)"

text \<open>Lines 484-520: the service is new; the switch, then the insertion.\<close>

definition stack_fetch_new :: "stack \<Rightarrow> string list \<Rightarrow> targetData \<Rightarrow> world \<Rightarrow> world" where
  "stack_fetch_new recv ls d st =
     (let ((bootstrapCount, failureCount), st) =
            else_switch extendingTotalServiceBootstrap extendingTotalServiceFailure ls d st;
          (p, st) = new_object \<lparr>objId = dID d, Name = dName d, State = dState d,
                      Type = dType d, BootstrapCount = bootstrapCount,
                      FailureCount = failureCount\<rparr> st;
          (m, st) = make_instance_map st;
          svc = \<lparr>service_object = p, service_Instances = m, service_System = dSystem d,
                  service_parent = recv\<rparr>
      in st\<lparr>service_maps := (service_maps st)(stack_Services recv :=
              AList.update (dName d) svc (service_maps st (stack_Services recv)))\<rparr>)"

text \<open>Lines 425-522: the body of the loop over \<^verbatim>\<open>t.Data\<close>, for a non-nil entry.\<close>

definition stack_fetch_item :: "stack \<Rightarrow> targetData \<Rightarrow> world \<Rightarrow> world" where
  "stack_fetch_item recv d st =
     (let ls = stack_fetch_labels recv d st;
          st = stack_fetch_gauges recv d st
      in case map_of (service_maps st (stack_Services recv)) (dName d) of
           Some take' \<Rightarrow>
             take_branch extendingTotalServiceBootstrap extendingTotalServiceFailure ls
               (service_object take') d st
         | None \<Rightarrow> stack_fetch_new recv ls d st)"

fun stack_fetch_items :: "stack \<Rightarrow> targetData option list \<Rightarrow> world \<Rightarrow> outcome" where
  "stack_fetch_items recv [] st = Returned st"
| "stack_fetch_items recv (None # ds) st = Panicked st"
| "stack_fetch_items recv (Some d # ds) st = stack_fetch_items recv ds (stack_fetch_item recv d st)"

text \<open>Lines 422-529: the loop over the pages, bounded as above.\<close>

fun stack_fetch_pages :: "(string \<Rightarrow> http_reply) \<Rightarrow> nat \<Rightarrow> stack \<Rightarrow> string \<Rightarrow> world \<Rightarrow> outcome option" where
  "stack_fetch_pages api 0 recv url st = None"
| "stack_fetch_pages api (Suc n) recv url st =
     (case get api url of
        Inl _ \<Rightarrow> Some (Panicked st)
      | Inr t \<Rightarrow>
          (case stack_fetch_items recv (Data t) st of
             Panicked st \<Rightarrow> Some (Panicked st)
           | Returned st \<Rightarrow>
               (case Pagination t of
                  None \<Rightarrow> Some (Panicked st)
                | Some pg \<Rightarrow>
                    if length (Next pg) \<noteq> 0 then stack_fetch_pages api n recv (Next pg) st
                    else Some (Returned st))))"

text \<open>Lines 402-543. A panic skips the goroutines over \<^verbatim>\<open>o.Services\<close>.\<close>

definition stack_fetch :: "config \<Rightarrow> (string \<Rightarrow> http_reply) \<Rightarrow> nat \<Rightarrow> stack \<Rightarrow> world \<Rightarrow> world option" where
  "stack_fetch cfg api n recv st =
     (if length (objId (objects st (stack_object recv))) = 0 then Some st
      else
        (case stack_fetch_pages api n recv
                (if hideSys cfg then
                   cattleURL cfg @ ''/stacks/'' @ objId (objects st (stack_object recv))
                     @ ''/services?limit=100&sort=id&system=false''
                 else
                   cattleURL cfg @ ''/stacks/'' @ objId (objects st (stack_object recv))
                     @ ''/services?limit=100&sort=id'') st of
           None \<Rightarrow> None
         | Some (Panicked st) \<Rightarrow> Some st
         | Some (Returned st) \<Rightarrow>
             fetch_services cfg api n (map snd (service_maps st (stack_Services recv))) st))"

fun fetch_stacks :: "config \<Rightarrow> (string \<Rightarrow> http_reply) \<Rightarrow> nat \<Rightarrow> stack list \<Rightarrow> world \<Rightarrow> world option" where
  "fetch_stacks cfg api n [] st = Some st"
| "fetch_stacks cfg api n (stk # stks) st =
     (case stack_fetch cfg api n stk st of
        None \<Rightarrow> None
      | Some st \<Rightarrow> fetch_stacks cfg api n stks st)"

section \<open>\<^verbatim>\<open>project.fetch\<close> (lines 553-691)\<close>

text \<open>Lines 577-586: the label tuple of the stack series.\<close>

definition project_fetch_labels :: "project \<Rightarrow> targetData \<Rightarrow> world \<Rightarrow> string list" where
  "project_fetch_labels recv d st =
     (let stackName = dName d;
          stackSystem = FormatBool (dSystem d);
          stackType = dType d;
          envName = Name (objects st (project_object recv))
      in [envName, stackName, stackSystem, stackType])"

text \<open>Lines 588-605: health, state and heartbeat of the stack.\<close>

definition project_fetch_gauges :: "project \<Rightarrow> targetData \<Rightarrow> world \<Rightarrow> world" where
  "project_fetch_gauges recv d st =
     (let stackHealthState = dHealthState d;
          stackState = dState d;
          stackId = dID d;
          stackName = dName d;
          stackSystem = FormatBool (dSystem d);
          ls = project_fetch_labels recv d st;
          st = reg (set_each infinityWorksStacksHealth
                      (\<lambda>y. [stackId, stackName, y, stackSystem]) healthStates stackHealthState) st;
          st = reg (set_each infinityWorksStacksState
                      (\<lambda>y. [stackId, stackName, y, stackSystem]) stackStates stackState) st
      in reg (vec_Set extendingStackHeartbeat ls 1) st)"

text \<open>Lines 632-668: the stack is new; the switch, then the insertion.\<close>

definition project_fetch_new :: "project \<Rightarrow> string list \<Rightarrow> targetData \<Rightarrow> world \<Rightarrow> world" where
  "project_fetch_new recv ls d st =
     (let ((bootstrapCount, failureCount), st) =
            else_switch extendingTotalStackBootstrap extendingTotalStackFailure ls d st;
          (p, st) = new_object \<lparr>objId = dID d, Name = dName d, State = dState d,
                      Type = dType d, BootstrapCount = bootstrapCount,
                      FailureCount = failureCount\<rparr> st;
          (m, st) = make_service_map st;
          stk = \<lparr>stack_object = p, stack_Services = m, stack_System = dSystem d,
                  stack_parent = recv\<rparr>
      in st\<lparr>stack_maps := (stack_maps st)(project_Stacks recv :=
              AList.update (dName d) stk (stack_maps st (project_Stacks recv)))\<rparr>)"

text \<open>Lines 576-670: the body of the loop over \<^verbatim>\<open>t.Data\<close>, for a non-nil entry.\<close>

definition project_fetch_item :: "project \<Rightarrow> targetData \<Rightarrow> world \<Rightarrow> world" where
  "project_fetch_item recv d st =
     (let ls = project_fetch_labels recv d st;
          st = project_fetch_gauges recv d st
      in case map_of (stack_maps st (project_Stacks recv)) (dName d) of
           Some take' \<Rightarrow>
             take_branch extendingTotalStackBootstrap extendingTotalStackFailure ls
               (stack_object take') d st
         | None \<Rightarrow> project_fetch_new recv ls d st)"

fun project_fetch_items :: "project \<Rightarrow> targetData option list \<Rightarrow> world \<Rightarrow> outcome" where
  "project_fetch_items recv [] st = Returned st"
| "project_fetch_items recv (None # ds) st = Panicked st"
| "project_fetch_items recv (Some d # ds) st = project_fetch_items recv ds (project_fetch_item recv d st)"

text \<open>Lines 573-677: the loop over the pages, bounded as above.\<close>

fun project_fetch_pages :: "(string \<Rightarrow> http_reply) \<Rightarrow> nat \<Rightarrow> project \<Rightarrow> string \<Rightarrow> world \<Rightarrow> outcome option" where
  "project_fetch_pages api 0 recv url st = None"
| "project_fetch_pages api (Suc n) recv url st =
     (case get api url of
        Inl _ \<Rightarrow> Some (Panicked st)
      | Inr t \<Rightarrow>
          (case project_fetch_items recv (Data t) st of
             Panicked st \<Rightarrow> Some (Panicked st)
           | Returned st \<Rightarrow>
               (case Pagination t of
                  None \<Rightarrow> Some (Panicked st)
                | Some pg \<Rightarrow>
                    if length (Next pg) \<noteq> 0 then project_fetch_pages api n recv (Next pg) st
                    else Some (Returned st))))"

text \<open>Lines 553-691. A panic skips the goroutines over \<^verbatim>\<open>o.Stacks\<close>.\<close>

definition project_fetch :: "config \<Rightarrow> (string \<Rightarrow> http_reply) \<Rightarrow> nat \<Rightarrow> project \<Rightarrow> world \<Rightarrow> world option" where
  "project_fetch cfg api n recv st =
     (if length (objId (objects st (project_object recv))) = 0 then Some st
      else
        (case project_fetch_pages api n recv
                (if hideSys cfg then
                   cattleURL cfg @ ''/projects/'' @ objId (objects st (project_object recv))
                     @ ''/stacks?limit=100&sort=id&system=false''
                 else
                   cattleURL cfg @ ''/projects/'' @ objId (objects st (project_object recv))
                     @ ''/stacks?limit=100&sort=id'') st of
           None \<Rightarrow> None
         | Some (Panicked st) \<Rightarrow> Some st
         | Some (Returned st) \<Rightarrow>
             fetch_stacks cfg api n (map snd (stack_maps st (project_Stacks recv))) st))"

fun fetch_projects :: "config \<Rightarrow> (string \<Rightarrow> http_reply) \<Rightarrow> nat \<Rightarrow> project list \<Rightarrow> world \<Rightarrow> world option" where
  "fetch_projects cfg api n [] st = Some st"
| "fetch_projects cfg api n (pro # pros) st =
     (case project_fetch cfg api n pro st of
        None \<Rightarrow> None
      | Some st \<Rightarrow> fetch_projects cfg api n pros st)"

section \<open>\<^verbatim>\<open>metric.fetch\<close> (lines 916-1022)\<close>

text \<open>Lines 927-939.\<close>

definition reset_metrics :: "world \<Rightarrow> world" where
  "reset_metrics st =
     (let st = reg (vec_Reset infinityWorksHostsState) st;
          st = reg (vec_Reset infinityWorksHostAgentsState) st;
          st = reg (vec_Reset infinityWorksStacksHealth) st;
          st = reg (vec_Reset infinityWorksStacksState) st;
          st = reg (vec_Reset infinityWorksServicesScale) st;
          st = reg (vec_Reset infinityWorksServicesHealth) st;
          st = reg (vec_Reset infinityWorksServicesState) st;
          st = reg (vec_Reset extendingInstanceHeartbeat) st;
          st = reg (vec_Reset extendingServiceHeartbeat) st
      in reg (vec_Reset extendingStackHeartbeat) st)"

text \<open>Lines 951-978: one host.\<close>

definition host_item :: "targetData \<Rightarrow> world \<Rightarrow> world" where
  "host_item d st =
     (let hostName = dHostName d;
          hostState = dState d;
          hostId = dID d;
          hostAgentState = dAgentState d;
          hostName = (if length (dName d) \<noteq> 0 then dName d else hostName);
          st = reg (set_each infinityWorksHostsState (\<lambda>y. [hostId, hostName, y]) hostStates hostState) st
      in reg (set_each infinityWorksHostAgentsState (\<lambda>y. [hostId, hostName, y]) agentStates hostAgentState) st)"

fun host_items :: "targetData option list \<Rightarrow> world \<Rightarrow> outcome" where
  "host_items [] st = Returned st"
| "host_items (None # ds) st = Panicked st"
| "host_items (Some d # ds) st = host_items ds (host_item d st)"

text \<open>Lines 946-979: the first goroutine. It has no \<^verbatim>\<open>recover()\<close>.\<close>

definition fetch_hosts :: "config \<Rightarrow> (string \<Rightarrow> http_reply) \<Rightarrow> world \<Rightarrow> outcome" where
  "fetch_hosts cfg api st =
     (case get api (cattleURL cfg @ ''/hosts'') of
        Inl _ \<Rightarrow> Panicked st
      | Inr t \<Rightarrow> host_items (Data t) st)"

text \<open>Lines 988-1005, and the same text at lines 714-731: one project of the list.\<close>

definition project_item :: "targetData \<Rightarrow> world \<Rightarrow> world" where
  "project_item d st =
     (let envId = dID d;
          envName = dName d
      in case map_of (Projects st) envName of
           Some take' \<Rightarrow> upd_object (project_object take') (\<lambda>x. x\<lparr>objId := envId\<rparr>) st
         | None \<Rightarrow>
             (let (p, st) = new_object \<lparr>objId = envId, Name = envName, State = [], Type = [],
                              BootstrapCount = 0, FailureCount = 0\<rparr> st;
                  (m, st) = make_stack_map st
              in st\<lparr>Projects := AList.update envName
                      \<lparr>project_object = p, project_Stacks = m\<rparr> (Projects st)\<rparr>))"

fun project_items :: "targetData option list \<Rightarrow> world \<Rightarrow> outcome" where
  "project_items [] st = Returned st"
| "project_items (None # ds) st = Panicked st"
| "project_items (Some d # ds) st = project_items ds (project_item d st)"

text \<open>
  Lines 941-1019: the two goroutines, one after the other here. Neither has a
  \<^verbatim>\<open>recover()\<close>, and the deferred one of \<^verbatim>\<open>metric.fetch\<close> belongs to another
  goroutine: \<open>Panicked\<close> is the end of the process. \<open>None\<close> is a scrape that does not return.
\<close>

definition fetch_body :: "config \<Rightarrow> (string \<Rightarrow> http_reply) \<Rightarrow> nat \<Rightarrow> world \<Rightarrow> outcome option" where
  "fetch_body cfg api n st =
     (case fetch_hosts cfg api st of
        Panicked st \<Rightarrow> Some (Panicked st)
      | Returned st \<Rightarrow>
          (case get api (cattleURL cfg @ ''/projects'') of
             Inl _ \<Rightarrow> Some (Panicked st)
           | Inr t \<Rightarrow>
               (case project_items (Data t) st of
                  Panicked st \<Rightarrow> Some (Panicked st)
                | Returned st \<Rightarrow>
                    (case fetch_projects cfg api n (map snd (Projects st)) st of
                       None \<Rightarrow> None
                     | Some st \<Rightarrow> Some (Returned st)))))"

text \<open>Lines 916-1022: the resets, then the two goroutines.\<close>

definition metric_fetch :: "config \<Rightarrow> (string \<Rightarrow> http_reply) \<Rightarrow> nat \<Rightarrow> world \<Rightarrow> outcome option" where
  "metric_fetch cfg api n st = fetch_body cfg api n (reset_metrics st)"

section \<open>\<^verbatim>\<open>metric.recover\<close> (lines 701-841)\<close>

text \<open>Lines 804-832: one instance of the decoded project. Reading \<^verbatim>\<open>sInstance.Id\<close>
  through a nil \<^verbatim>\<open>*object\<close> panics.\<close>

definition recover_instance :: "string \<Rightarrow> string \<Rightarrow> string \<Rightarrow> service \<Rightarrow> decoded_instance \<Rightarrow> world \<Rightarrow> outcome" where
  "recover_instance envName stackName serviceName svc sInstance st =
     (case di_object sInstance of
        None \<Rightarrow> Panicked st
      | Some x \<Rightarrow>
          (let instanceId = objId x;
               instanceName = Name x;
               instanceSystem = FormatBool (di_System sInstance);
               instanceType = Type x;
               (p, st) = new_object \<lparr>objId = instanceId, Name = instanceName, State = State x,
                           Type = instanceType, BootstrapCount = BootstrapCount x,
                           FailureCount = FailureCount x\<rparr> st;
               ins = \<lparr>instance_object = p, instance_System = di_System sInstance,
                       instance_StartupTime = di_StartupTime sInstance, instance_parent = svc\<rparr>;
               st = st\<lparr>instance_maps := (instance_maps st)(service_Instances svc :=
                      AList.update instanceName ins (instance_maps st (service_Instances svc)))\<rparr>;
               ls = [envName, stackName, serviceName, instanceName, instanceSystem, instanceType];
               st = reg (vec_Add extendingTotalInstanceBootstrap ls (uint (BootstrapCount x))) st;
               st = reg (vec_Add extendingTotalInstanceFailure ls (uint (FailureCount x))) st
           in Returned (reg (vec_Set extendingInstanceBootstrapMsCost ls
                               (uint (di_StartupTime sInstance))) st)))"

fun recover_instances :: "string \<Rightarrow> string \<Rightarrow> string \<Rightarrow> service \<Rightarrow> decoded_instance list \<Rightarrow> world \<Rightarrow> outcome" where
  "recover_instances envName stackName serviceName svc [] st = Returned st"
| "recover_instances envName stackName serviceName svc (sInstance # rest) st =
     (case recover_instance envName stackName serviceName svc sInstance st of
        Panicked st \<Rightarrow> Panicked st
      | Returned st \<Rightarrow> recover_instances envName stackName serviceName svc rest st)"

text \<open>Lines 777-833: one service of the decoded project, then its instances.\<close>

definition recover_service :: "string \<Rightarrow> string \<Rightarrow> stack \<Rightarrow> decoded_service \<Rightarrow> world \<Rightarrow> outcome" where
  "recover_service envName stackName stk sService st =
     (case ds_object sService of
        None \<Rightarrow> Panicked st
      | Some x \<Rightarrow>
          (let serviceId = objId x;
               serviceName = Name x;
               serviceSystem = FormatBool (ds_System sService);
               serviceType = Type x;
               (p, st) = new_object \<lparr>objId = serviceId, Name = serviceName, State = State x,
                           Type = serviceType, BootstrapCount = BootstrapCount x,
                           FailureCount = FailureCount x\<rparr> st;
               (m, st) = make_instance_map st;
               svc = \<lparr>service_object = p, service_Instances = m, service_System = ds_System sService,
                       service_parent = stk\<rparr>;
               st = st\<lparr>service_maps := (service_maps st)(stack_Services stk :=
                      AList.update serviceName svc (service_maps st (stack_Services stk)))\<rparr>;
               ls = [envName, stackName, serviceName, serviceSystem, serviceType];
               st = reg (vec_Add extendingTotalServiceBootstrap ls (uint (BootstrapCount x))) st;
               st = reg (vec_Add extendingTotalServiceFailure ls (uint (FailureCount x))) st
           in recover_instances envName stackName serviceName svc
                (map snd (ds_Instances sService)) st))"

fun recover_services :: "string \<Rightarrow> string \<Rightarrow> stack \<Rightarrow> decoded_service list \<Rightarrow> world \<Rightarrow> outcome" where
  "recover_services envName stackName stk [] st = Returned st"
| "recover_services envName stackName stk (sService # rest) st =
     (case recover_service envName stackName stk sService st of
        Panicked st \<Rightarrow> Panicked st
      | Returned st \<Rightarrow> recover_services envName stackName stk rest st)"

text \<open>Lines 750-834: one stack of the decoded project, then its services.\<close>

definition recover_stack :: "string \<Rightarrow> project \<Rightarrow> decoded_stack \<Rightarrow> world \<Rightarrow> outcome" where
  "recover_stack envName pro sStack st =
     (case dk_object sStack of
        None \<Rightarrow> Panicked st
      | Some x \<Rightarrow>
          (let stackId = objId x;
               stackName = Name x;
               stackSystem = FormatBool (dk_System sStack);
               stackType = Type x;
               (p, st) = new_object \<lparr>objId = stackId, Name = stackName, State = State x,
                           Type = stackType, BootstrapCount = BootstrapCount x,
                           FailureCount = FailureCount x\<rparr> st;
               (m, st) = make_service_map st;
               stk = \<lparr>stack_object = p, stack_Services = m, stack_System = dk_System sStack,
                       stack_parent = pro\<rparr>;
               st = st\<lparr>stack_maps := (stack_maps st)(project_Stacks pro :=
                      AList.update stackName stk (stack_maps st (project_Stacks pro)))\<rparr>;
               ls = [envName, stackName, stackSystem, stackType];
               st = reg (vec_Add extendingTotalStackBootstrap ls (uint (BootstrapCount x))) st;
               st = reg (vec_Add extendingTotalStackFailure ls (uint (FailureCount x))) st
           in recover_services envName stackName stk (map snd (dk_Services sStack)) st))"

fun recover_stacks :: "string \<Rightarrow> project \<Rightarrow> decoded_stack list \<Rightarrow> world \<Rightarrow> outcome" where
  "recover_stacks envName pro [] st = Returned st"
| "recover_stacks envName pro (sStack # rest) st =
     (case recover_stack envName pro sStack st of
        Panicked st \<Rightarrow> Panicked st
      | Returned st \<Rightarrow> recover_stacks envName pro rest st)"

text \<open>
  Lines 739-836: the goroutine of one project. \<^verbatim>\<open>t.Data[l-1]\<close> is the last entry;
  it may be nil, and so may its \<^verbatim>\<open>ResourceData\<close>. The goroutine has no \<^verbatim>\<open>recover()\<close>.
\<close>

definition recover_project :: "config \<Rightarrow> (string \<Rightarrow> http_reply) \<Rightarrow> project \<Rightarrow> world \<Rightarrow> outcome" where
  "recover_project cfg api pro st =
     (let envId = objId (objects st (project_object pro));
          envName = Name (objects st (project_object pro))
      in case get api (cattleURL cfg @ ''/genericobjects?name='' @ genObjName cfg @ ''&key='' @ envId
                         @ ''&kind='' @ genericobjectKind) of
           Inl _ \<Rightarrow> Panicked st
         | Inr t \<Rightarrow>
             if length (Data t) \<noteq> 0 then
               (case last (Data t) of
                  None \<Rightarrow> Panicked st
                | Some d \<Rightarrow>
                    (case dResourceData d of
                       None \<Rightarrow> Panicked st
                     | Some storeProject \<Rightarrow>
                         recover_stacks envName pro (map snd (dp_Stacks storeProject)) st))
             else Returned st)"

fun recover_projects :: "config \<Rightarrow> (string \<Rightarrow> http_reply) \<Rightarrow> project list \<Rightarrow> world \<Rightarrow> outcome" where
  "recover_projects cfg api [] st = Returned st"
| "recover_projects cfg api (pro # pros) st =
     (case recover_project cfg api pro st of
        Panicked st \<Rightarrow> Panicked st
      | Returned st \<Rightarrow> recover_projects cfg api pros st)"

text \<open>
  Lines 701-841. A panic before the goroutines start is stopped by the deferred
  \<^verbatim>\<open>recover()\<close>; a panic inside a goroutine ends the process (\<open>Panicked\<close>).
\<close>

definition metric_recover :: "config \<Rightarrow> (string \<Rightarrow> http_reply) \<Rightarrow> world \<Rightarrow> outcome" where
  "metric_recover cfg api st =
     (case get api (cattleURL cfg @ ''/projects'') of
        Inl _ \<Rightarrow> Returned st
      | Inr t \<Rightarrow>
          (case project_items (Data t) st of
             Panicked st \<Rightarrow> Returned st
           | Returned st \<Rightarrow> recover_projects cfg api (map snd (Projects st)) st))"

section \<open>\<^verbatim>\<open>metric.backup\<close> (lines 843-914)\<close>

text \<open>
  What the HTTP layer does with one POST, and lines 197-211: both errors return early
  with status 0 and the error; otherwise the status code of the response.
\<close>

datatype post_reply = PostNewRequestError | PostDoError | PostStatus nat

definition post_result :: "post_reply \<Rightarrow> nat \<times> bool" where
  "post_result r =
     (case r of
        PostNewRequestError \<Rightarrow> (0, True)
      | PostDoError \<Rightarrow> (0, True)
      | PostStatus code \<Rightarrow> (code, False))"









section \<open>\<^verbatim>\<open>newMetric\<close> (lines 160-167)\<close>

text \<open>The model at process start: no project, no series, nothing allocated.\<close>

definition zero_object :: object where
  "zero_object = \<lparr>objId = [], Name = [], State = [], Type = [], BootstrapCount = 0, FailureCount = 0\<rparr>"

definition newMetric :: world where
  "newMetric = \<lparr>objects = (\<lambda>_. zero_object), stack_maps = (\<lambda>_. []), service_maps = (\<lambda>_. []),
     instance_maps = (\<lambda>_. []), fresh = 0, Projects = [], vecs = (\<lambda>_. Map.empty), history = []\<rparr>"

section \<open>Auxiliary definitions for the statements\<close>

text \<open>The six counter vectors (lines 88-122).\<close>

definition counters :: "vec list" where
  "counters = [extendingTotalStackBootstrap, extendingTotalStackFailure,
     extendingTotalServiceBootstrap, extendingTotalServiceFailure,
     extendingTotalInstanceBootstrap, extendingTotalInstanceFailure]"

text \<open>The observations recorded between two stores.\<close>

definition observed :: "world \<Rightarrow> world \<Rightarrow> (object option \<times> targetData) list" where
  "observed st st' = drop (length (history st)) (history st')"


text \<open>An observation that found no count at the largest \<^verbatim>\<open>uint64\<close>.\<close>

definition below_max :: "object option \<times> targetData \<Rightarrow> bool" where
  "below_max e = (case fst e of None \<Rightarrow> True
     | Some x \<Rightarrow> BootstrapCount x \<noteq> - 1 \<and> FailureCount x \<noteq> - 1)"

text \<open>
  Successive scrape cycles of one process, each with the answers the API gives during it.
  A scrape that ends the process, or does not return, has no successor.
\<close>

fun scrape_cycles :: "config \<Rightarrow> nat \<Rightarrow> (string \<Rightarrow> http_reply) list \<Rightarrow> world \<Rightarrow> world option" where
  "scrape_cycles cfg n [] st = Some st"
| "scrape_cycles cfg n (api # apis) st =
     (case metric_fetch cfg api n st of
        Some (Returned st) \<Rightarrow> scrape_cycles cfg n apis st
      | Some (Panicked st) \<Rightarrow> None
      | None \<Rightarrow> None)"



text \<open>
  Every entry of every table that existed before is still there, with the same struct
  value (so with the same \<^verbatim>\<open>System\<close> and \<^verbatim>\<open>StartupTime\<close>).
\<close>

definition tables_kept :: "world \<Rightarrow> world \<Rightarrow> bool" where
  "tables_kept st st' \<longleftrightarrow>
     fresh st \<le> fresh st'
   \<and> (\<forall>m<fresh st. \<forall>n v. map_of (stack_maps st m) n = Some v \<longrightarrow> map_of (stack_maps st' m) n = Some v)
   \<and> (\<forall>m<fresh st. \<forall>n v. map_of (service_maps st m) n = Some v \<longrightarrow> map_of (service_maps st' m) n = Some v)
   \<and> (\<forall>m<fresh st. \<forall>n v. map_of (instance_maps st m) n = Some v \<longrightarrow> map_of (instance_maps st' m) n = Some v)"


text \<open>
  Across \<open>st\<close> to \<open>st'\<close>, if no observation recorded in between found a count at the largest
  \<^verbatim>\<open>uint64\<close>, no count of an object that existed before has gone down.
\<close>

definition counts_grow :: "world \<Rightarrow> world \<Rightarrow> bool" where
  "counts_grow st st' \<longleftrightarrow>
     fresh st \<le> fresh st'
   \<and> (\<exists>evs. history st' = history st @ evs
        \<and> (list_all below_max evs \<longrightarrow>
              (\<forall>p<fresh st. BootstrapCount (objects st p) \<le> BootstrapCount (objects st' p)
                   \<and> FailureCount (objects st p) \<le> FailureCount (objects st' p))))"



text \<open>A call that returned, rather than ending the process or running on.\<close>

fun returns :: "outcome option \<Rightarrow> bool" where
  "returns (Some (Returned st)) = True"
| "returns (Some (Panicked st)) = False"
| "returns None = False"

subsection \<open>A small orchestrator, for the concrete instances\<close>

text \<open>The zero value of \<^verbatim>\<open>targetData\<close>, and one project, stack, service and instance.\<close>

definition zeroData :: targetData where
  "zeroData = \<lparr>dHealthState = [], dKey = [], dName = [], dState = [], dSystem = False,
     dScale = 0, dHostName = [], dID = [], dStackID = [], dEnvID = [], dType = [],
     dAgentState = [], dCreatedTS = 0, dFirstRunningTS = 0, dResourceData = None\<rparr>"

definition env_datum :: targetData where
  "env_datum = zeroData\<lparr>dID := ''1a5'', dName := ''env''\<rparr>"

definition stack_datum :: "string \<Rightarrow> string \<Rightarrow> string \<Rightarrow> targetData" where
  "stack_datum n s h = zeroData\<lparr>dID := ''1st1'', dName := n, dState := s, dHealthState := h,
     dType := ''stack''\<rparr>"

definition service_datum :: "string \<Rightarrow> string \<Rightarrow> string \<Rightarrow> targetData" where
  "service_datum n s h = zeroData\<lparr>dID := ''1s1'', dName := n, dState := s, dHealthState := h,
     dType := ''service'', dScale := 1\<rparr>"

definition instance_datum :: "string \<Rightarrow> string \<Rightarrow> u64 \<Rightarrow> u64 \<Rightarrow> targetData" where
  "instance_datum n s created firstRunning = zeroData\<lparr>dID := ''1i1'', dName := n, dState := s,
     dType := ''container'', dCreatedTS := created, dFirstRunningTS := firstRunning\<rparr>"

definition env_project :: project where
  "env_project = \<lparr>project_object = 0, project_Stacks = 1\<rparr>"

definition web_stack :: stack where
  "web_stack = \<lparr>stack_object = 2, stack_Services = 3, stack_System = False,
     stack_parent = env_project\<rparr>"

definition api_service :: service where
  "api_service = \<lparr>service_object = 4, service_Instances = 5, service_System = False,
     service_parent = web_stack\<rparr>"

definition box_instance :: instance_struct where
  "box_instance = \<lparr>instance_object = 6, instance_System = False, instance_StartupTime = 250,
     instance_parent = api_service\<rparr>"

text \<open>A store that holds them, in state \<open>active\<close> and \<open>running\<close>, with no series yet.\<close>

definition example_objects :: "ref \<Rightarrow> object" where
  "example_objects =
     (\<lambda>_. zero_object)
       (0 := \<lparr>objId = ''1a5'', Name = ''env'', State = [], Type = [], BootstrapCount = 0, FailureCount = 0\<rparr>,
        2 := \<lparr>objId = ''1st1'', Name = ''web'', State = ''active'', Type = ''stack'',
               BootstrapCount = 1, FailureCount = 0\<rparr>,
        4 := \<lparr>objId = ''1s1'', Name = ''api'', State = ''active'', Type = ''service'',
               BootstrapCount = 1, FailureCount = 0\<rparr>,
        6 := \<lparr>objId = ''1i1'', Name = ''box'', State = ''running'', Type = ''container'',
               BootstrapCount = 1, FailureCount = 0\<rparr>)"

definition example_world :: world where
  "example_world = \<lparr>objects = example_objects,
     stack_maps = (\<lambda>_. [])(1 := [(''web'', web_stack)]),
     service_maps = (\<lambda>_. [])(3 := [(''api'', api_service)]),
     instance_maps = (\<lambda>_. [])(5 := [(''box'', box_instance)]),
     fresh = 7, Projects = [(''env'', env_project)], vecs = (\<lambda>_. Map.empty), history = []\<rparr>"


subsection \<open>Relations kept by every operation of the walker\<close>

text \<open>
  A relation between the store before and the store after that holds across nothing
  happening, composes, and holds across each of the five loop bodies.
\<close>

definition step_closed :: "(world \<Rightarrow> world \<Rightarrow> bool) \<Rightarrow> bool" where
  "step_closed R \<longleftrightarrow>
     (\<forall>st. R st st)
   \<and> (\<forall>a b c. R a b \<longrightarrow> R b c \<longrightarrow> R a c)
   \<and> (\<forall>d st. R st (host_item d st))
   \<and> (\<forall>d st. R st (project_item d st))
   \<and> (\<forall>recv d st. R st (project_fetch_item recv d st))
   \<and> (\<forall>recv d st. R st (stack_fetch_item recv d st))
   \<and> (\<forall>recv d st. R st (service_fetch_item recv d st))"

text \<open>A page of the API with the given entries and no next page; a configuration.\<close>

definition page :: "targetData list \<Rightarrow> http_reply" where
  "page ds = Decoded \<lparr>Data = map Some ds, Pagination = Some \<lparr>Next = []\<rparr>\<rparr>"

definition example_config :: config where
  "example_config = \<lparr>cattleURL = [], hideSys = False, genObjName = ''exporter''\<rparr>"

text \<open>An API with project \<open>env\<close> and its stack \<open>web\<close> in a given state.\<close>

definition web_api :: "string \<Rightarrow> string \<Rightarrow> string \<Rightarrow> http_reply" where
  "web_api s h url =
     (if url = ''/projects'' then page [env_datum]
      else if url = ''/projects/1a5/stacks?limit=100&sort=id'' then page [stack_datum ''web'' s h]
      else page [])"

text \<open>An API that lists two stacks named \<open>web\<close> in project \<open>env\<close>: the running one and
  one that was removed.\<close>

definition twin_api :: "string \<Rightarrow> http_reply" where
  "twin_api url =
     (if url = ''/projects'' then page [env_datum]
      else if url = ''/projects/1a5/stacks?limit=100&sort=id'' then
        page [stack_datum ''web'' ''active'' ''healthy'', stack_datum ''web'' ''removed'' ''healthy'']
      else page [])"

text \<open>The store a scrape leaves (the old store if the scrape does not return).\<close>

definition scrape :: "config \<Rightarrow> (string \<Rightarrow> http_reply) \<Rightarrow> nat \<Rightarrow> world \<Rightarrow> world" where
  "scrape cfg api n st = (case metric_fetch cfg api n st of Some oc \<Rightarrow> world_of oc | None \<Rightarrow> st)"


text \<open>The store after some scrape cycles (the old store if they do not all return).\<close>

definition after_cycles :: "config \<Rightarrow> nat \<Rightarrow> (string \<Rightarrow> http_reply) list \<Rightarrow> world \<Rightarrow> world" where
  "after_cycles cfg n apis st = (case scrape_cycles cfg n apis st of Some st' \<Rightarrow> st' | None \<Rightarrow> st)"

text \<open>The example store with stack \<open>web\<close> being upgraded, its bootstrap count at the largest
  \<^verbatim>\<open>uint64\<close>, as a checkpoint may hold it.\<close>

definition full_world :: world where
  "full_world = example_world\<lparr>objects := example_objects
     (2 := \<lparr>objId = ''1st1'', Name = ''web'', State = ''upgrading'', Type = ''stack'',
             BootstrapCount = 18446744073709551615, FailureCount = 0\<rparr>)\<rparr>"

subsection \<open>Recovery\<close>


















section \<open>Basic facts\<close>

lemma reg_simps [simp]:
  "objects (reg f st) = objects st"
  "stack_maps (reg f st) = stack_maps st"
  "service_maps (reg f st) = service_maps st"
  "instance_maps (reg f st) = instance_maps st"
  "fresh (reg f st) = fresh st"
  "Projects (reg f st) = Projects st"
  "vecs (reg f st) = f (vecs st)"
  "history (reg f st) = history st"
  by (simp_all add: reg_def)

lemma upd_object_simps [simp]:
  "objects (upd_object p f st) = (objects st)(p := f (objects st p))"
  "stack_maps (upd_object p f st) = stack_maps st"
  "service_maps (upd_object p f st) = service_maps st"
  "instance_maps (upd_object p f st) = instance_maps st"
  "fresh (upd_object p f st) = fresh st"
  "Projects (upd_object p f st) = Projects st"
  "vecs (upd_object p f st) = vecs st"
  "history (upd_object p f st) = history st"
  by (simp_all add: upd_object_def)

lemma note_seen_simps [simp]:
  "objects (note_seen prev d st) = objects st"
  "stack_maps (note_seen prev d st) = stack_maps st"
  "service_maps (note_seen prev d st) = service_maps st"
  "instance_maps (note_seen prev d st) = instance_maps st"
  "fresh (note_seen prev d st) = fresh st"
  "Projects (note_seen prev d st) = Projects st"
  "vecs (note_seen prev d st) = vecs st"
  "history (note_seen prev d st) = history st @ [(prev, d)]"
  by (simp_all add: note_seen_def)


lemma vec_Add_apply:
  "vec_Add v ls x r v' ls' = (if v' = v \<and> ls' = ls then Some (shown r v ls + x) else r v' ls')"
  by (simp add: vec_Add_def shown_def)



lemma vec_Reset_apply: "vec_Reset v r v' = (if v' = v then Map.empty else r v')"
  by (simp add: vec_Reset_def)




text \<open>take_branch, field by field\<close>

lemma take_branch_frame [simp]:
  "stack_maps (take_branch b f ls p d st) = stack_maps st"
  "service_maps (take_branch b f ls p d st) = service_maps st"
  "instance_maps (take_branch b f ls p d st) = instance_maps st"
  "fresh (take_branch b f ls p d st) = fresh st"
  "Projects (take_branch b f ls p d st) = Projects st"
  "history (take_branch b f ls p d st) = history st @ [(Some (objects st p), d)]"
  by (simp_all add: take_branch_def Let_def)


lemma take_branch_objects:
  "objects (take_branch b f ls p d st) =
     (objects st)(p := (objects st p)\<lparr>objId := dID d, Type := dType d, State := dState d,
        BootstrapCount := BootstrapCount (objects st p) +
          (if State (objects st p) \<noteq> dState d \<and> (dState d = ''active'' \<or> dState d = ''error'') then 1 else 0),
        FailureCount := FailureCount (objects st p) +
          (if State (objects st p) \<noteq> dState d \<and>
              (dState d = ''active'' \<and> dHealthState d = ''unhealthy'' \<or> dState d = ''error'') then 1 else 0)\<rparr>)"
  by (auto simp add: take_branch_def Let_def fun_eq_iff)



lemma else_switch_frame [simp]:
  "objects (snd (else_switch b f ls d st)) = objects st"
  "stack_maps (snd (else_switch b f ls d st)) = stack_maps st"
  "service_maps (snd (else_switch b f ls d st)) = service_maps st"
  "instance_maps (snd (else_switch b f ls d st)) = instance_maps st"
  "fresh (snd (else_switch b f ls d st)) = fresh st"
  "Projects (snd (else_switch b f ls d st)) = Projects st"
  "history (snd (else_switch b f ls d st)) = history st @ [(None, d)]"
  by (simp_all add: else_switch_def Let_def)


lemma service_fetch_take_frame [simp]:
  "stack_maps (service_fetch_take ls p d st) = stack_maps st"
  "service_maps (service_fetch_take ls p d st) = service_maps st"
  "instance_maps (service_fetch_take ls p d st) = instance_maps st"
  "fresh (service_fetch_take ls p d st) = fresh st"
  "Projects (service_fetch_take ls p d st) = Projects st"
  "history (service_fetch_take ls p d st) = history st @ [(Some (objects st p), d)]"
  by (simp_all add: service_fetch_take_def Let_def)


lemma service_fetch_take_objects:
  "objects (service_fetch_take ls p d st) =
     (objects st)(p := (objects st p)\<lparr>objId := dID d, Type := dType d, State := dState d,
        BootstrapCount := BootstrapCount (objects st p) +
          (if State (objects st p) \<noteq> dState d \<and> (dState d = ''running'' \<or> dState d = ''error'') then 1 else 0),
        FailureCount := FailureCount (objects st p) +
          (if State (objects st p) \<noteq> dState d \<and> dState d = ''error'' then 1 else 0)\<rparr>)"
  by (auto simp add: service_fetch_take_def Let_def fun_eq_iff)

lemma service_fetch_switch_fst:
  "fst (service_fetch_switch ls d st) =
     (if dState d = ''error'' then (1, 1, 0)
      else if dState d = ''stopped'' \<or> dState d = ''running'' then
        (1, 0, if dFirstRunningTS d \<noteq> 0 then dFirstRunningTS d - dCreatedTS d else 0)
      else (0, 0, 0))"
  by (simp add: service_fetch_switch_def Let_def)

lemma service_fetch_switch_frame [simp]:
  "objects (snd (service_fetch_switch ls d st)) = objects st"
  "stack_maps (snd (service_fetch_switch ls d st)) = stack_maps st"
  "service_maps (snd (service_fetch_switch ls d st)) = service_maps st"
  "instance_maps (snd (service_fetch_switch ls d st)) = instance_maps st"
  "fresh (snd (service_fetch_switch ls d st)) = fresh st"
  "Projects (snd (service_fetch_switch ls d st)) = Projects st"
  "history (snd (service_fetch_switch ls d st)) = history st @ [(None, d)]"
  by (simp_all add: service_fetch_switch_def Let_def)


text \<open>gauges\<close>

lemma project_fetch_gauges_frame [simp]:
  "objects (project_fetch_gauges recv d st) = objects st"
  "stack_maps (project_fetch_gauges recv d st) = stack_maps st"
  "service_maps (project_fetch_gauges recv d st) = service_maps st"
  "instance_maps (project_fetch_gauges recv d st) = instance_maps st"
  "fresh (project_fetch_gauges recv d st) = fresh st"
  "Projects (project_fetch_gauges recv d st) = Projects st"
  "history (project_fetch_gauges recv d st) = history st"
  by (simp_all add: project_fetch_gauges_def Let_def)

lemma stack_fetch_gauges_frame [simp]:
  "objects (stack_fetch_gauges recv d st) = objects st"
  "stack_maps (stack_fetch_gauges recv d st) = stack_maps st"
  "service_maps (stack_fetch_gauges recv d st) = service_maps st"
  "instance_maps (stack_fetch_gauges recv d st) = instance_maps st"
  "fresh (stack_fetch_gauges recv d st) = fresh st"
  "Projects (stack_fetch_gauges recv d st) = Projects st"
  "history (stack_fetch_gauges recv d st) = history st"
  by (simp_all add: stack_fetch_gauges_def Let_def)



text \<open>new nodes\<close>

lemma project_fetch_new_fields:
  "objects (project_fetch_new recv ls d st) =
     (objects st)(fresh st := \<lparr>objId = dID d, Name = dName d, State = dState d, Type = dType d,
        BootstrapCount = fst (fst (else_switch extendingTotalStackBootstrap extendingTotalStackFailure ls d st)),
        FailureCount = snd (fst (else_switch extendingTotalStackBootstrap extendingTotalStackFailure ls d st))\<rparr>)"
  "stack_maps (project_fetch_new recv ls d st) =
     (stack_maps st)(project_Stacks recv := AList.update (dName d)
        \<lparr>stack_object = fresh st, stack_Services = Suc (fresh st), stack_System = dSystem d, stack_parent = recv\<rparr>
        (stack_maps st (project_Stacks recv)))"
  "service_maps (project_fetch_new recv ls d st) = (service_maps st)(Suc (fresh st) := [])"
  "instance_maps (project_fetch_new recv ls d st) = instance_maps st"
  "fresh (project_fetch_new recv ls d st) = Suc (Suc (fresh st))"
  "Projects (project_fetch_new recv ls d st) = Projects st"
  "vecs (project_fetch_new recv ls d st) = vecs (snd (else_switch extendingTotalStackBootstrap extendingTotalStackFailure ls d st))"
  "history (project_fetch_new recv ls d st) = history st @ [(None, d)]"
  by (simp_all add: project_fetch_new_def Let_def split_def new_object_def make_service_map_def)

lemma stack_fetch_new_fields:
  "objects (stack_fetch_new recv ls d st) =
     (objects st)(fresh st := \<lparr>objId = dID d, Name = dName d, State = dState d, Type = dType d,
        BootstrapCount = fst (fst (else_switch extendingTotalServiceBootstrap extendingTotalServiceFailure ls d st)),
        FailureCount = snd (fst (else_switch extendingTotalServiceBootstrap extendingTotalServiceFailure ls d st))\<rparr>)"
  "stack_maps (stack_fetch_new recv ls d st) = stack_maps st"
  "service_maps (stack_fetch_new recv ls d st) =
     (service_maps st)(stack_Services recv := AList.update (dName d)
        \<lparr>service_object = fresh st, service_Instances = Suc (fresh st), service_System = dSystem d, service_parent = recv\<rparr>
        (service_maps st (stack_Services recv)))"
  "instance_maps (stack_fetch_new recv ls d st) = (instance_maps st)(Suc (fresh st) := [])"
  "fresh (stack_fetch_new recv ls d st) = Suc (Suc (fresh st))"
  "Projects (stack_fetch_new recv ls d st) = Projects st"
  "vecs (stack_fetch_new recv ls d st) = vecs (snd (else_switch extendingTotalServiceBootstrap extendingTotalServiceFailure ls d st))"
  "history (stack_fetch_new recv ls d st) = history st @ [(None, d)]"
  by (simp_all add: stack_fetch_new_def Let_def split_def new_object_def make_instance_map_def)

lemma service_fetch_new_fields:
  "objects (service_fetch_new recv ls d st) =
     (objects st)(fresh st := \<lparr>objId = dID d, Name = dName d, State = dState d, Type = dType d,
        BootstrapCount = fst (fst (service_fetch_switch ls d st)),
        FailureCount = fst (snd (fst (service_fetch_switch ls d st)))\<rparr>)"
  "stack_maps (service_fetch_new recv ls d st) = stack_maps st"
  "service_maps (service_fetch_new recv ls d st) = service_maps st"
  "instance_maps (service_fetch_new recv ls d st) =
     (instance_maps st)(service_Instances recv := AList.update (dName d)
        \<lparr>instance_object = fresh st, instance_System = dSystem d,
           instance_StartupTime = snd (snd (fst (service_fetch_switch ls d st))), instance_parent = recv\<rparr>
        (instance_maps st (service_Instances recv)))"
  "fresh (service_fetch_new recv ls d st) = Suc (fresh st)"
  "Projects (service_fetch_new recv ls d st) = Projects st"
  "vecs (service_fetch_new recv ls d st) = vecs (snd (service_fetch_switch ls d st))"
  "history (service_fetch_new recv ls d st) = history st @ [(None, d)]"
  by (simp_all add: service_fetch_new_def Let_def split_def new_object_def)


lemma shown_vec_Add:
  "shown (vec_Add v ls x r) v' ls' = shown r v' ls' + (if v' = v \<and> ls' = ls then x else 0)"
  by (simp add: shown_def vec_Add_apply)








lemma project_fetch_labels_cong:
  "Name (objects st' (project_object recv)) = Name (objects st (project_object recv))
   \<Longrightarrow> project_fetch_labels recv d st' = project_fetch_labels recv d st"
  by (simp add: project_fetch_labels_def)

lemma project_fetch_item_Some:
  "map_of (stack_maps st (project_Stacks recv)) (dName d) = Some tk \<Longrightarrow>
   project_fetch_item recv d st =
     take_branch extendingTotalStackBootstrap extendingTotalStackFailure
       (project_fetch_labels recv d st) (stack_object tk) d (project_fetch_gauges recv d st)"
  by (simp add: project_fetch_item_def Let_def)

lemma project_fetch_item_None:
  "map_of (stack_maps st (project_Stacks recv)) (dName d) = None \<Longrightarrow>
   project_fetch_item recv d st =
     project_fetch_new recv (project_fetch_labels recv d st) d (project_fetch_gauges recv d st)"
  by (simp add: project_fetch_item_def Let_def)

lemma stack_fetch_item_Some:
  "map_of (service_maps st (stack_Services recv)) (dName d) = Some tk \<Longrightarrow>
   stack_fetch_item recv d st =
     take_branch extendingTotalServiceBootstrap extendingTotalServiceFailure
       (stack_fetch_labels recv d st) (service_object tk) d (stack_fetch_gauges recv d st)"
  by (simp add: stack_fetch_item_def Let_def)

lemma stack_fetch_item_None:
  "map_of (service_maps st (stack_Services recv)) (dName d) = None \<Longrightarrow>
   stack_fetch_item recv d st =
     stack_fetch_new recv (stack_fetch_labels recv d st) d (stack_fetch_gauges recv d st)"
  by (simp add: stack_fetch_item_def Let_def)





text \<open>The object of the observed node after the observation.\<close>

lemma project_fetch_item_Some_objects:
  assumes "map_of (stack_maps st (project_Stacks recv)) (dName d) = Some tk"
  shows "objects (project_fetch_item recv d st) =
     (objects st)(stack_object tk := (objects st (stack_object tk))\<lparr>objId := dID d, Type := dType d, State := dState d,
        BootstrapCount := BootstrapCount (objects st (stack_object tk)) +
          (if State (objects st (stack_object tk)) \<noteq> dState d \<and> (dState d = ''active'' \<or> dState d = ''error'') then 1 else 0),
        FailureCount := FailureCount (objects st (stack_object tk)) +
          (if State (objects st (stack_object tk)) \<noteq> dState d \<and>
              (dState d = ''active'' \<and> dHealthState d = ''unhealthy'' \<or> dState d = ''error'') then 1 else 0)\<rparr>)"
  by (simp add: project_fetch_item_Some [OF assms] take_branch_objects)

lemma stack_fetch_item_Some_objects:
  assumes "map_of (service_maps st (stack_Services recv)) (dName d) = Some tk"
  shows "objects (stack_fetch_item recv d st) =
     (objects st)(service_object tk := (objects st (service_object tk))\<lparr>objId := dID d, Type := dType d, State := dState d,
        BootstrapCount := BootstrapCount (objects st (service_object tk)) +
          (if State (objects st (service_object tk)) \<noteq> dState d \<and> (dState d = ''active'' \<or> dState d = ''error'') then 1 else 0),
        FailureCount := FailureCount (objects st (service_object tk)) +
          (if State (objects st (service_object tk)) \<noteq> dState d \<and>
              (dState d = ''active'' \<and> dHealthState d = ''unhealthy'' \<or> dState d = ''error'') then 1 else 0)\<rparr>)"
  by (simp add: stack_fetch_item_Some [OF assms] take_branch_objects)



lemma project_fetch_item_Some_frame:
  assumes "map_of (stack_maps st (project_Stacks recv)) (dName d) = Some tk"
  shows "stack_maps (project_fetch_item recv d st) = stack_maps st"
    and "service_maps (project_fetch_item recv d st) = service_maps st"
    and "instance_maps (project_fetch_item recv d st) = instance_maps st"
    and "fresh (project_fetch_item recv d st) = fresh st"
    and "Projects (project_fetch_item recv d st) = Projects st"
    and "history (project_fetch_item recv d st) = history st @ [(Some (objects st (stack_object tk)), d)]"
  by (simp_all add: project_fetch_item_Some [OF assms])




lemma stack_fetch_item_Some_frame:
  assumes "map_of (service_maps st (stack_Services recv)) (dName d) = Some tk"
  shows "stack_maps (stack_fetch_item recv d st) = stack_maps st"
    and "service_maps (stack_fetch_item recv d st) = service_maps st"
    and "instance_maps (stack_fetch_item recv d st) = instance_maps st"
    and "fresh (stack_fetch_item recv d st) = fresh st"
    and "Projects (stack_fetch_item recv d st) = Projects st"
    and "history (stack_fetch_item recv d st) = history st @ [(Some (objects st (service_object tk)), d)]"
  by (simp_all add: stack_fetch_item_Some [OF assms])

lemma counters_cases:
  "v \<in> set counters \<longleftrightarrow> v = extendingTotalStackBootstrap \<or> v = extendingTotalStackFailure
     \<or> v = extendingTotalServiceBootstrap \<or> v = extendingTotalServiceFailure
     \<or> v = extendingTotalInstanceBootstrap \<or> v = extendingTotalInstanceFailure"
  by (auto simp: counters_def)





subsection \<open>One observed instance\<close>

lemma service_fetch_item_Some:
  "map_of (instance_maps st (service_Instances recv)) (dName d) = Some tk \<Longrightarrow>
   service_fetch_item recv d st =
     service_fetch_take (service_fetch_labels recv d st) (instance_object tk) d
       (reg (vec_Set extendingInstanceHeartbeat (service_fetch_labels recv d st) 1) st)"
  by (simp add: service_fetch_item_def Let_def)

lemma service_fetch_item_None:
  "map_of (instance_maps st (service_Instances recv)) (dName d) = None \<Longrightarrow>
   service_fetch_item recv d st =
     service_fetch_new recv (service_fetch_labels recv d st) d
       (reg (vec_Set extendingInstanceHeartbeat (service_fetch_labels recv d st) 1) st)"
  by (simp add: service_fetch_item_def Let_def)

lemma service_fetch_item_Some_frame:
  assumes "map_of (instance_maps st (service_Instances recv)) (dName d) = Some tk"
  shows "stack_maps (service_fetch_item recv d st) = stack_maps st"
    and "service_maps (service_fetch_item recv d st) = service_maps st"
    and "instance_maps (service_fetch_item recv d st) = instance_maps st"
    and "fresh (service_fetch_item recv d st) = fresh st"
    and "Projects (service_fetch_item recv d st) = Projects st"
    and "history (service_fetch_item recv d st) = history st @ [(Some (objects st (instance_object tk)), d)]"
  by (simp_all add: service_fetch_item_Some [OF assms])

lemma service_fetch_item_Some_objects:
  assumes "map_of (instance_maps st (service_Instances recv)) (dName d) = Some tk"
  shows "objects (service_fetch_item recv d st) =
     (objects st)(instance_object tk := (objects st (instance_object tk))\<lparr>objId := dID d, Type := dType d, State := dState d,
        BootstrapCount := BootstrapCount (objects st (instance_object tk)) +
          (if State (objects st (instance_object tk)) \<noteq> dState d \<and> (dState d = ''running'' \<or> dState d = ''error'') then 1 else 0),
        FailureCount := FailureCount (objects st (instance_object tk)) +
          (if State (objects st (instance_object tk)) \<noteq> dState d \<and> dState d = ''error'' then 1 else 0)\<rparr>)"
  by (simp add: service_fetch_item_Some [OF assms] service_fetch_take_objects)



lemma service_fetch_item_None_node:
  assumes "map_of (instance_maps st (service_Instances recv)) (dName d) = None"
  shows "map_of (instance_maps (service_fetch_item recv d st) (service_Instances recv)) (dName d) =
           Some \<lparr>instance_object = fresh st, instance_System = dSystem d,
                  instance_StartupTime =
                    (if (dState d = ''stopped'' \<or> dState d = ''running'') \<and> dFirstRunningTS d \<noteq> 0
                     then dFirstRunningTS d - dCreatedTS d else 0),
                  instance_parent = recv\<rparr>"
    and "objects (service_fetch_item recv d st) =
           (objects st)(fresh st := \<lparr>objId = dID d, Name = dName d, State = dState d, Type = dType d,
              BootstrapCount = (if dState d = ''error'' \<or> dState d = ''stopped'' \<or> dState d = ''running'' then 1 else 0),
              FailureCount = (if dState d = ''error'' then 1 else 0)\<rparr>)"
  by (simp_all add: service_fetch_item_None [OF assms] service_fetch_new_fields service_fetch_switch_fst update_conv')




subsection \<open>The resets\<close>

lemma reset_metrics_frame [simp]:
  "objects (reset_metrics st) = objects st"
  "stack_maps (reset_metrics st) = stack_maps st"
  "service_maps (reset_metrics st) = service_maps st"
  "instance_maps (reset_metrics st) = instance_maps st"
  "fresh (reset_metrics st) = fresh st"
  "Projects (reset_metrics st) = Projects st"
  "history (reset_metrics st) = history st"
  by (simp_all add: reset_metrics_def Let_def)

lemma reset_metrics_vecs:
  "vecs (reset_metrics st) =
     vec_Reset extendingStackHeartbeat (vec_Reset extendingServiceHeartbeat
       (vec_Reset extendingInstanceHeartbeat (vec_Reset infinityWorksServicesState
         (vec_Reset infinityWorksServicesHealth (vec_Reset infinityWorksServicesScale
           (vec_Reset infinityWorksStacksState (vec_Reset infinityWorksStacksHealth
             (vec_Reset infinityWorksHostAgentsState (vec_Reset infinityWorksHostsState (vecs st))))))))))"
  by (simp add: reset_metrics_def Let_def)

subsection \<open>Induction over the walker\<close>

lemma step_closedD:
  assumes "step_closed R"
  shows "R st st"
    and "R a b \<Longrightarrow> R b c \<Longrightarrow> R a c"
    and "R st (host_item d st)"
    and "R st (project_item d st)"
    and "R st (project_fetch_item pro d st)"
    and "R st (stack_fetch_item stk d st)"
    and "R st (service_fetch_item svc d st)"
  using assms unfolding step_closed_def by blast+

lemma service_fetch_items_rel:
  assumes R: "step_closed R"
  shows "R st (world_of (service_fetch_items recv ds st))"
proof (induction ds arbitrary: st)
  case Nil
  show ?case by (simp add: step_closedD(1) [OF R])
next
  case (Cons a ds)
  show ?case
  proof (cases a)
    case None
    then show ?thesis by (simp add: step_closedD(1) [OF R])
  next
    case (Some d)
    from step_closedD(2) [OF R step_closedD(7) [OF R] Cons.IH]
    show ?thesis by (simp add: Some)
  qed
qed

lemma service_fetch_pages_rel:
  assumes R: "step_closed R"
  shows "service_fetch_pages api n recv url st = Some oc \<Longrightarrow> R st (world_of oc)"
proof (induction n arbitrary: url st)
  case 0
  then show ?case by simp
next
  case (Suc n)
  note items = service_fetch_items_rel [OF R, of st recv]
  show ?case
  proof (cases "get api url")
    case (Inl e)
    with Suc.prems show ?thesis by (auto simp: step_closedD(1) [OF R])
  next
    case (Inr t)
    show ?thesis
    proof (cases "service_fetch_items recv (Data t) st")
      case (Panicked s)
      with Suc.prems Inr items [of "Data t"] show ?thesis by auto
    next
      case (Returned s)
      with items [of "Data t"] have rs: "R st s" by simp
      show ?thesis
      proof (cases "Pagination t")
        case None
        with Suc.prems Inr Returned rs show ?thesis by auto
      next
        case (Some pg)
        show ?thesis
        proof (cases "length (Next pg) \<noteq> 0")
          case True
          with Suc.prems Inr Returned Some
          have "service_fetch_pages api n recv (Next pg) s = Some oc" by simp
          from step_closedD(2) [OF R rs Suc.IH [OF this]] show ?thesis .
        next
          case False
          with Suc.prems Inr Returned Some rs show ?thesis by auto
        qed
      qed
    qed
  qed
qed

lemma service_fetch_cases:
  assumes "service_fetch cfg api n recv st = Some st'"
  obtains "st' = st"
  | url oc where "service_fetch_pages api n recv url st = Some oc" and "st' = world_of oc"
  using assms
  by (fastforce simp: service_fetch_def split: if_splits option.splits outcome.splits)

lemma service_fetch_rel:
  assumes R: "step_closed R" and f: "service_fetch cfg api n recv st = Some st'"
  shows "R st st'"
  using f
proof (cases rule: service_fetch_cases)
  case 1
  then show ?thesis by (simp add: step_closedD(1) [OF R])
next
  case (2 url oc)
  with service_fetch_pages_rel [OF R 2(1)] show ?thesis by simp
qed

lemma fetch_services_rel:
  assumes R: "step_closed R"
  shows "fetch_services cfg api n svcs st = Some st' \<Longrightarrow> R st st'"
proof (induction svcs arbitrary: st)
  case Nil
  then show ?case by (simp add: step_closedD(1) [OF R])
next
  case (Cons svc svcs)
  then obtain s where a: "service_fetch cfg api n svc st = Some s"
    and b: "fetch_services cfg api n svcs s = Some st'"
    by (auto split: option.splits)
  from step_closedD(2) [OF R service_fetch_rel [OF R a] Cons.IH [OF b]] show ?case .
qed

lemma stack_fetch_items_rel:
  assumes R: "step_closed R"
  shows "R st (world_of (stack_fetch_items recv ds st))"
proof (induction ds arbitrary: st)
  case Nil
  show ?case by (simp add: step_closedD(1) [OF R])
next
  case (Cons a ds)
  show ?case
  proof (cases a)
    case None
    then show ?thesis by (simp add: step_closedD(1) [OF R])
  next
    case (Some d)
    from step_closedD(2) [OF R step_closedD(6) [OF R] Cons.IH]
    show ?thesis by (simp add: Some)
  qed
qed

lemma stack_fetch_pages_rel:
  assumes R: "step_closed R"
  shows "stack_fetch_pages api n recv url st = Some oc \<Longrightarrow> R st (world_of oc)"
proof (induction n arbitrary: url st)
  case 0
  then show ?case by simp
next
  case (Suc n)
  note items = stack_fetch_items_rel [OF R, of st recv]
  show ?case
  proof (cases "get api url")
    case (Inl e)
    with Suc.prems show ?thesis by (auto simp: step_closedD(1) [OF R])
  next
    case (Inr t)
    show ?thesis
    proof (cases "stack_fetch_items recv (Data t) st")
      case (Panicked s)
      with Suc.prems Inr items [of "Data t"] show ?thesis by auto
    next
      case (Returned s)
      with items [of "Data t"] have rs: "R st s" by simp
      show ?thesis
      proof (cases "Pagination t")
        case None
        with Suc.prems Inr Returned rs show ?thesis by auto
      next
        case (Some pg)
        show ?thesis
        proof (cases "length (Next pg) \<noteq> 0")
          case True
          with Suc.prems Inr Returned Some
          have "stack_fetch_pages api n recv (Next pg) s = Some oc" by simp
          from step_closedD(2) [OF R rs Suc.IH [OF this]] show ?thesis .
        next
          case False
          with Suc.prems Inr Returned Some rs show ?thesis by auto
        qed
      qed
    qed
  qed
qed

lemma stack_fetch_cases:
  assumes "stack_fetch cfg api n recv st = Some st'"
  obtains "st' = st"
  | url s where "stack_fetch_pages api n recv url st = Some (Panicked s)" and "st' = s"
  | url s where "stack_fetch_pages api n recv url st = Some (Returned s)"
      and "fetch_services cfg api n (map snd (service_maps s (stack_Services recv))) s = Some st'"
  using assms
  by (fastforce simp: stack_fetch_def split: if_splits option.splits outcome.splits)

lemma stack_fetch_rel:
  assumes R: "step_closed R" and f: "stack_fetch cfg api n recv st = Some st'"
  shows "R st st'"
  using f
proof (cases rule: stack_fetch_cases)
  case 1
  then show ?thesis by (simp add: step_closedD(1) [OF R])
next
  case (2 url s)
  with stack_fetch_pages_rel [OF R 2(1)] show ?thesis by simp
next
  case (3 url s)
  from stack_fetch_pages_rel [OF R 3(1)] have "R st s" by simp
  from step_closedD(2) [OF R this fetch_services_rel [OF R 3(2)]] show ?thesis .
qed

lemma fetch_stacks_rel:
  assumes R: "step_closed R"
  shows "fetch_stacks cfg api n stks st = Some st' \<Longrightarrow> R st st'"
proof (induction stks arbitrary: st)
  case Nil
  then show ?case by (simp add: step_closedD(1) [OF R])
next
  case (Cons stk stks)
  then obtain s where a: "stack_fetch cfg api n stk st = Some s"
    and b: "fetch_stacks cfg api n stks s = Some st'"
    by (auto split: option.splits)
  from step_closedD(2) [OF R stack_fetch_rel [OF R a] Cons.IH [OF b]] show ?case .
qed

lemma project_fetch_items_rel:
  assumes R: "step_closed R"
  shows "R st (world_of (project_fetch_items recv ds st))"
proof (induction ds arbitrary: st)
  case Nil
  show ?case by (simp add: step_closedD(1) [OF R])
next
  case (Cons a ds)
  show ?case
  proof (cases a)
    case None
    then show ?thesis by (simp add: step_closedD(1) [OF R])
  next
    case (Some d)
    from step_closedD(2) [OF R step_closedD(5) [OF R] Cons.IH]
    show ?thesis by (simp add: Some)
  qed
qed

lemma project_fetch_pages_rel:
  assumes R: "step_closed R"
  shows "project_fetch_pages api n recv url st = Some oc \<Longrightarrow> R st (world_of oc)"
proof (induction n arbitrary: url st)
  case 0
  then show ?case by simp
next
  case (Suc n)
  note items = project_fetch_items_rel [OF R, of st recv]
  show ?case
  proof (cases "get api url")
    case (Inl e)
    with Suc.prems show ?thesis by (auto simp: step_closedD(1) [OF R])
  next
    case (Inr t)
    show ?thesis
    proof (cases "project_fetch_items recv (Data t) st")
      case (Panicked s)
      with Suc.prems Inr items [of "Data t"] show ?thesis by auto
    next
      case (Returned s)
      with items [of "Data t"] have rs: "R st s" by simp
      show ?thesis
      proof (cases "Pagination t")
        case None
        with Suc.prems Inr Returned rs show ?thesis by auto
      next
        case (Some pg)
        show ?thesis
        proof (cases "length (Next pg) \<noteq> 0")
          case True
          with Suc.prems Inr Returned Some
          have "project_fetch_pages api n recv (Next pg) s = Some oc" by simp
          from step_closedD(2) [OF R rs Suc.IH [OF this]] show ?thesis .
        next
          case False
          with Suc.prems Inr Returned Some rs show ?thesis by auto
        qed
      qed
    qed
  qed
qed

lemma project_fetch_cases:
  assumes "project_fetch cfg api n recv st = Some st'"
  obtains "st' = st"
  | url s where "project_fetch_pages api n recv url st = Some (Panicked s)" and "st' = s"
  | url s where "project_fetch_pages api n recv url st = Some (Returned s)"
      and "fetch_stacks cfg api n (map snd (stack_maps s (project_Stacks recv))) s = Some st'"
  using assms
  by (fastforce simp: project_fetch_def split: if_splits option.splits outcome.splits)

lemma project_fetch_rel:
  assumes R: "step_closed R" and f: "project_fetch cfg api n recv st = Some st'"
  shows "R st st'"
  using f
proof (cases rule: project_fetch_cases)
  case 1
  then show ?thesis by (simp add: step_closedD(1) [OF R])
next
  case (2 url s)
  with project_fetch_pages_rel [OF R 2(1)] show ?thesis by simp
next
  case (3 url s)
  from project_fetch_pages_rel [OF R 3(1)] have "R st s" by simp
  from step_closedD(2) [OF R this fetch_stacks_rel [OF R 3(2)]] show ?thesis .
qed

lemma fetch_projects_rel:
  assumes R: "step_closed R"
  shows "fetch_projects cfg api n pros st = Some st' \<Longrightarrow> R st st'"
proof (induction pros arbitrary: st)
  case Nil
  then show ?case by (simp add: step_closedD(1) [OF R])
next
  case (Cons pro pros)
  then obtain s where a: "project_fetch cfg api n pro st = Some s"
    and b: "fetch_projects cfg api n pros s = Some st'"
    by (auto split: option.splits)
  from step_closedD(2) [OF R project_fetch_rel [OF R a] Cons.IH [OF b]] show ?case .
qed

lemma host_items_rel:
  assumes R: "step_closed R"
  shows "R st (world_of (host_items ds st))"
proof (induction ds arbitrary: st)
  case Nil
  show ?case by (simp add: step_closedD(1) [OF R])
next
  case (Cons a ds)
  show ?case
  proof (cases a)
    case None
    then show ?thesis by (simp add: step_closedD(1) [OF R])
  next
    case (Some d)
    from step_closedD(2) [OF R step_closedD(3) [OF R] Cons.IH]
    show ?thesis by (simp add: Some)
  qed
qed

lemma project_items_rel:
  assumes R: "step_closed R"
  shows "R st (world_of (project_items ds st))"
proof (induction ds arbitrary: st)
  case Nil
  show ?case by (simp add: step_closedD(1) [OF R])
next
  case (Cons a ds)
  show ?case
  proof (cases a)
    case None
    then show ?thesis by (simp add: step_closedD(1) [OF R])
  next
    case (Some d)
    from step_closedD(2) [OF R step_closedD(4) [OF R] Cons.IH]
    show ?thesis by (simp add: Some)
  qed
qed

lemma fetch_hosts_rel:
  assumes R: "step_closed R"
  shows "R st (world_of (fetch_hosts cfg api st))"
  using host_items_rel [OF R, of st] step_closedD(1) [OF R, of st]
  by (simp add: fetch_hosts_def split: sum.splits)

lemma fetch_body_rel:
  assumes R: "step_closed R" and f: "fetch_body cfg api n st = Some oc"
  shows "R st (world_of oc)"
proof (cases "fetch_hosts cfg api st")
  case (Panicked s)
  with f have "oc = Panicked s" by (simp add: fetch_body_def)
  with fetch_hosts_rel [OF R, of st cfg api] Panicked show ?thesis by simp
next
  case (Returned s)
  with fetch_hosts_rel [OF R, of st cfg api] have a: "R st s" by simp
  show ?thesis
  proof (cases "get api (cattleURL cfg @ ''/projects'')")
    case (Inl e)
    with f Returned have "oc = Panicked s" by (simp add: fetch_body_def)
    with a show ?thesis by simp
  next
    case (Inr t)
    show ?thesis
    proof (cases "project_items (Data t) s")
      case (Panicked u)
      with f Returned Inr have "oc = Panicked u" by (simp add: fetch_body_def)
      with project_items_rel [OF R, of s "Data t"] Panicked step_closedD(2) [OF R a]
      show ?thesis by simp
    next
      case u: (Returned u)
      with project_items_rel [OF R, of s "Data t"] have b: "R s u" by simp
      from f Returned Inr u obtain w where w: "fetch_projects cfg api n (map snd (Projects u)) u = Some w"
        and oc: "oc = Returned w"
        by (auto simp: fetch_body_def split: option.splits)
      from step_closedD(2) [OF R step_closedD(2) [OF R a b] fetch_projects_rel [OF R w]] oc
      show ?thesis by simp
    qed
  qed
qed

subsection \<open>The tables only grow\<close>

lemma host_item_frame [simp]:
  "objects (host_item d st) = objects st"
  "stack_maps (host_item d st) = stack_maps st"
  "service_maps (host_item d st) = service_maps st"
  "instance_maps (host_item d st) = instance_maps st"
  "fresh (host_item d st) = fresh st"
  "Projects (host_item d st) = Projects st"
  "history (host_item d st) = history st"
  by (simp_all add: host_item_def Let_def)


lemma project_item_fields:
  "stack_maps (project_item d st) =
     (case map_of (Projects st) (dName d) of Some tk \<Rightarrow> stack_maps st
      | None \<Rightarrow> (stack_maps st)(Suc (fresh st) := []))"
  "service_maps (project_item d st) = service_maps st"
  "instance_maps (project_item d st) = instance_maps st"
  "fresh (project_item d st) =
     (case map_of (Projects st) (dName d) of Some tk \<Rightarrow> fresh st | None \<Rightarrow> Suc (Suc (fresh st)))"
  "vecs (project_item d st) = vecs st"
  "history (project_item d st) = history st"
  "objects (project_item d st) =
     (case map_of (Projects st) (dName d) of
        Some tk \<Rightarrow> (objects st)(project_object tk := (objects st (project_object tk))\<lparr>objId := dID d\<rparr>)
      | None \<Rightarrow> (objects st)(fresh st := \<lparr>objId = dID d, Name = dName d, State = [], Type = [],
                    BootstrapCount = 0, FailureCount = 0\<rparr>))"
  by (simp_all add: project_item_def Let_def split_def new_object_def make_stack_map_def split: option.splits)

lemma map_of_update_kept:
  "map_of al k = None \<Longrightarrow> map_of al n = Some v \<Longrightarrow> map_of (AList.update k w al) n = Some v"
  by (auto simp: update_conv')

lemma tables_kept_project_fetch_item: "tables_kept st (project_fetch_item recv d st)"
proof (cases "map_of (stack_maps st (project_Stacks recv)) (dName d)")
  case None
  then show ?thesis
    by (auto simp: tables_kept_def project_fetch_item_None project_fetch_new_fields map_of_update_kept)
next
  case (Some tk)
  then show ?thesis
    by (simp add: tables_kept_def project_fetch_item_Some_frame)
qed

lemma tables_kept_stack_fetch_item: "tables_kept st (stack_fetch_item recv d st)"
proof (cases "map_of (service_maps st (stack_Services recv)) (dName d)")
  case None
  then show ?thesis
    by (auto simp: tables_kept_def stack_fetch_item_None stack_fetch_new_fields map_of_update_kept)
next
  case (Some tk)
  then show ?thesis
    by (simp add: tables_kept_def stack_fetch_item_Some_frame)
qed

lemma tables_kept_service_fetch_item: "tables_kept st (service_fetch_item recv d st)"
proof (cases "map_of (instance_maps st (service_Instances recv)) (dName d)")
  case None
  then show ?thesis
    by (auto simp: tables_kept_def service_fetch_item_None service_fetch_new_fields map_of_update_kept)
next
  case (Some tk)
  then show ?thesis
    by (simp add: tables_kept_def service_fetch_item_Some_frame)
qed

lemma tables_kept_closed: "step_closed tables_kept"
  unfolding step_closed_def
proof (intro conjI allI impI)
  fix a b c assume "tables_kept a b" "tables_kept b c"
  then show "tables_kept a c"
    unfolding tables_kept_def by (meson le_trans less_le_trans)
next
  fix d st show "tables_kept st (project_item d st)"
    by (auto simp: tables_kept_def project_item_fields split: option.splits)
qed (simp_all add: tables_kept_project_fetch_item tables_kept_stack_fetch_item
       tables_kept_service_fetch_item, simp_all add: tables_kept_def)

lemma tables_kept_metric_fetch:
  assumes "metric_fetch cfg api n st = Some oc"
  shows "tables_kept st (world_of oc)"
proof -
  from assms have "fetch_body cfg api n (reset_metrics st) = Some oc" by (simp add: metric_fetch_def)
  from fetch_body_rel [OF tables_kept_closed this] show ?thesis
    by (simp add: tables_kept_def)
qed


subsection \<open>An unchanged state counts nothing\<close>

















subsection \<open>The counts only grow, short of the largest value\<close>

lemma word_le_inc: "(x::u64) \<noteq> - 1 \<Longrightarrow> x \<le> x + 1"
  by (meson inc_less_eq_triv_imp nle_le)

lemma word_le_bump: "(x::u64) \<noteq> - 1 \<Longrightarrow> x \<le> x + (if b then 1 else 0)"
  by (simp add: word_le_inc)

lemma counts_grow_refl: "counts_grow st st"
  by (simp add: counts_grow_def)

lemma counts_grow_trans:
  assumes "counts_grow a b" and "counts_grow b c"
  shows "counts_grow a c"
proof -
  from assms(1) obtain e1 where f1: "fresh a \<le> fresh b" and h1: "history b = history a @ e1"
    and k1: "list_all below_max e1 \<Longrightarrow>
              (\<forall>p<fresh a. BootstrapCount (objects a p) \<le> BootstrapCount (objects b p)
                   \<and> FailureCount (objects a p) \<le> FailureCount (objects b p))"
    unfolding counts_grow_def by blast
  from assms(2) obtain e2 where f2: "fresh b \<le> fresh c" and h2: "history c = history b @ e2"
    and k2: "list_all below_max e2 \<Longrightarrow>
              (\<forall>p<fresh b. BootstrapCount (objects b p) \<le> BootstrapCount (objects c p)
                   \<and> FailureCount (objects b p) \<le> FailureCount (objects c p))"
    unfolding counts_grow_def by blast
  have "history c = history a @ (e1 @ e2)" using h1 h2 by simp
  moreover have "list_all below_max (e1 @ e2) \<longrightarrow>
              (\<forall>p<fresh a. BootstrapCount (objects a p) \<le> BootstrapCount (objects c p)
                   \<and> FailureCount (objects a p) \<le> FailureCount (objects c p))"
  proof (intro impI allI)
    fix p
    assume q: "list_all below_max (e1 @ e2)" and p: "p < fresh a"
    then have q1: "list_all below_max e1" and q2: "list_all below_max e2" by simp_all
    from p f1 have p': "p < fresh b" by simp
    from k1 [OF q1] p k2 [OF q2] p'
    show "BootstrapCount (objects a p) \<le> BootstrapCount (objects c p)
        \<and> FailureCount (objects a p) \<le> FailureCount (objects c p)"
      by (meson order_trans)
  qed
  ultimately show ?thesis
    unfolding counts_grow_def using f1 f2 by (meson le_trans)
qed

lemma counts_grow_project_fetch_item: "counts_grow st (project_fetch_item recv d st)"
proof (cases "map_of (stack_maps st (project_Stacks recv)) (dName d)")
  case None
  then show ?thesis
    by (simp add: counts_grow_def project_fetch_item_None project_fetch_new_fields below_max_def)
next
  case (Some tk)
  show ?thesis
    unfolding counts_grow_def
    by (simp add: project_fetch_item_Some_frame [OF Some] project_fetch_item_Some_objects [OF Some]
          below_max_def word_le_inc)
qed

lemma counts_grow_stack_fetch_item: "counts_grow st (stack_fetch_item recv d st)"
proof (cases "map_of (service_maps st (stack_Services recv)) (dName d)")
  case None
  then show ?thesis
    by (simp add: counts_grow_def stack_fetch_item_None stack_fetch_new_fields below_max_def)
next
  case (Some tk)
  show ?thesis
    unfolding counts_grow_def
    by (simp add: stack_fetch_item_Some_frame [OF Some] stack_fetch_item_Some_objects [OF Some]
          below_max_def word_le_inc)
qed

lemma counts_grow_service_fetch_item: "counts_grow st (service_fetch_item recv d st)"
proof (cases "map_of (instance_maps st (service_Instances recv)) (dName d)")
  case None
  then show ?thesis
    by (simp add: counts_grow_def service_fetch_item_None service_fetch_new_fields below_max_def)
next
  case (Some tk)
  show ?thesis
    unfolding counts_grow_def
    by (simp add: service_fetch_item_Some_frame [OF Some] service_fetch_item_Some_objects [OF Some]
          below_max_def word_le_inc)
qed

lemma counts_grow_closed: "step_closed counts_grow"
  unfolding step_closed_def
proof (intro conjI allI impI)
  fix a b c assume "counts_grow a b" "counts_grow b c"
  then show "counts_grow a c" by (rule counts_grow_trans)
next
  fix d st show "counts_grow st (project_item d st)"
    by (auto simp: counts_grow_def project_item_fields split: option.splits)
next
  fix d st show "counts_grow st (host_item d st)"
    by (simp add: counts_grow_def)
qed (simp_all add: counts_grow_refl counts_grow_project_fetch_item counts_grow_stack_fetch_item
       counts_grow_service_fetch_item)

lemma counts_grow_metric_fetch:
  assumes "metric_fetch cfg api n st = Some oc"
  shows "counts_grow st (world_of oc)"
proof -
  from assms have "fetch_body cfg api n (reset_metrics st) = Some oc" by (simp add: metric_fetch_def)
  from fetch_body_rel [OF counts_grow_closed this]
  show ?thesis by (simp add: counts_grow_def)
qed

lemma counts_grow_scrape_cycles:
  "scrape_cycles cfg n apis st = Some st' \<Longrightarrow> counts_grow st st'"
proof (induction apis arbitrary: st)
  case Nil
  then show ?case by (simp add: counts_grow_refl)
next
  case (Cons api apis)
  then obtain s where a: "metric_fetch cfg api n st = Some (Returned s)"
    and b: "scrape_cycles cfg n apis s = Some st'"
    by (auto split: option.splits outcome.splits)
  from counts_grow_metric_fetch [OF a] have "counts_grow st s" by simp
  from counts_grow_trans [OF this Cons.IH [OF b]] show ?case .
qed

lemma counts_grow_observed:
  assumes "counts_grow st st'" and "list_all below_max (observed st st')"
  shows "\<forall>p<fresh st. BootstrapCount (objects st p) \<le> BootstrapCount (objects st' p)
              \<and> FailureCount (objects st p) \<le> FailureCount (objects st' p)"
proof -
  from assms(1) obtain evs where h: "history st' = history st @ evs"
    and k: "list_all below_max evs \<longrightarrow>
              (\<forall>p<fresh st. BootstrapCount (objects st p) \<le> BootstrapCount (objects st' p)
                   \<and> FailureCount (objects st p) \<le> FailureCount (objects st' p))"
    unfolding counts_grow_def by blast
  from h have "observed st st' = evs" by (simp add: observed_def)
  with assms(2) k show ?thesis by blast
qed

subsection \<open>One-hot gauges\<close>



























subsection \<open>The example store\<close>

lemma example_simps:
  "stack_maps example_world (project_Stacks env_project) = [(''web'', web_stack)]"
  "service_maps example_world (stack_Services web_stack) = [(''api'', api_service)]"
  "instance_maps example_world (service_Instances api_service) = [(''box'', box_instance)]"
  "objects example_world = example_objects"
  "fresh example_world = 7"
  "vecs example_world = (\<lambda>_. Map.empty)"
  "history example_world = []"
  by (simp_all add: example_world_def env_project_def web_stack_def api_service_def)


lemma datum_simps:
  "dName (stack_datum n s h) = n" "dState (stack_datum n s h) = s" "dHealthState (stack_datum n s h) = h"
  "dSystem (stack_datum n s h) = False" "dType (stack_datum n s h) = ''stack''" "dID (stack_datum n s h) = ''1st1''"
  "dName (service_datum n s h) = n" "dState (service_datum n s h) = s" "dHealthState (service_datum n s h) = h"
  "dSystem (service_datum n s h) = False" "dType (service_datum n s h) = ''service''" "dID (service_datum n s h) = ''1s1''"
  "dName (instance_datum n s c f) = n" "dState (instance_datum n s c f) = s"
  "dSystem (instance_datum n s c f) = False" "dType (instance_datum n s c f) = ''container''"
  "dID (instance_datum n s c f) = ''1i1''"
  "dCreatedTS (instance_datum n s c f) = c" "dFirstRunningTS (instance_datum n s c f) = f"
  "(stack_datum n s h)\<lparr>dState := s', dHealthState := h'\<rparr> = stack_datum n s' h'"
  by (simp_all add: stack_datum_def service_datum_def instance_datum_def zeroData_def)

lemma shown_empty [simp]: "shown (\<lambda>_. Map.empty) v l = 0"
  by (simp add: shown_def)

lemma returnsE:
  assumes "returns r"
  obtains w where "r = Some (Returned w)"
  using assms by (cases r rule: returns.cases) simp_all

lemma scrape_Some: "metric_fetch cfg api n st = Some oc \<Longrightarrow> scrape cfg api n st = world_of oc"
  by (simp add: scrape_def)

lemma example_scrape_returns:
  "returns (metric_fetch example_config (web_api ''upgrading'' ''healthy'') 1 example_world)"
  by code_simp






lemma example_cycles:
  "scrape_cycles example_config 1 [web_api ''upgrading'' ''healthy'', web_api ''active'' ''unhealthy'']
     example_world \<noteq> None"
  by code_simp

lemma example_cycles_below_max:
  "list_all below_max (observed example_world
     (after_cycles example_config 1 [web_api ''upgrading'' ''healthy'', web_api ''active'' ''unhealthy'']
        example_world))"
  by code_simp

lemma full_world_scrape:
  "returns (metric_fetch example_config (web_api ''active'' ''healthy'') 1 full_world)"
  by code_simp

lemma full_world_wraps:
  "BootstrapCount (objects (scrape example_config (web_api ''active'' ''healthy'') 1 full_world)
     (stack_object web_stack)) = 0"
  by code_simp

subsection \<open>The backup\<close>


lemma post_result_created: "post_result r = (201, False) \<longleftrightarrow> r = PostStatus 201"
  by (cases r) (simp_all add: post_result_def)




subsection \<open>Recovery\<close>

































section \<open>The claims\<close>






text \<open>
  Claim C7. \<^verbatim>\<open>metric.fetch\<close> begins with the resets: its result is that of the two
  goroutines run on the store after \<open>reset_metrics\<close>. After the resets the ten vectors
  host state, host agent state, stack health, stack state, service scale, service health,
  service state and the three heartbeats have no series, and the other seven, the six
  counters and the startup gauge, hold what they held.
\<close>

theorem reset_at_scrape_start:
  "metric_fetch cfg api n st = fetch_body cfg api n (reset_metrics st)
   \<and> vecs (reset_metrics st) infinityWorksHostsState = Map.empty
   \<and> vecs (reset_metrics st) infinityWorksHostAgentsState = Map.empty
   \<and> vecs (reset_metrics st) infinityWorksStacksHealth = Map.empty
   \<and> vecs (reset_metrics st) infinityWorksStacksState = Map.empty
   \<and> vecs (reset_metrics st) infinityWorksServicesScale = Map.empty
   \<and> vecs (reset_metrics st) infinityWorksServicesHealth = Map.empty
   \<and> vecs (reset_metrics st) infinityWorksServicesState = Map.empty
   \<and> vecs (reset_metrics st) extendingInstanceHeartbeat = Map.empty
   \<and> vecs (reset_metrics st) extendingServiceHeartbeat = Map.empty
   \<and> vecs (reset_metrics st) extendingStackHeartbeat = Map.empty
   \<and> vecs (reset_metrics st) extendingTotalStackBootstrap = vecs st extendingTotalStackBootstrap
   \<and> vecs (reset_metrics st) extendingTotalStackFailure = vecs st extendingTotalStackFailure
   \<and> vecs (reset_metrics st) extendingTotalServiceBootstrap = vecs st extendingTotalServiceBootstrap
   \<and> vecs (reset_metrics st) extendingTotalServiceFailure = vecs st extendingTotalServiceFailure
   \<and> vecs (reset_metrics st) extendingTotalInstanceBootstrap = vecs st extendingTotalInstanceBootstrap
   \<and> vecs (reset_metrics st) extendingTotalInstanceFailure = vecs st extendingTotalInstanceFailure
   \<and> vecs (reset_metrics st) extendingInstanceBootstrapMsCost = vecs st extendingInstanceBootstrapMsCost"
  by (simp add: metric_fetch_def reset_metrics_vecs vec_Reset_apply)


text \<open>
  Claim C4 does not hold of the code. When \<^verbatim>\<open>r.client.Do\<close> fails, \<^verbatim>\<open>get\<close> logs the
  error and goes on to \<^verbatim>\<open>defer resp.Body.Close()\<close> with a nil \<^verbatim>\<open>resp\<close>: it panics and
  returns no page. In \<^verbatim>\<open>metric.fetch\<close> the first such call is made in a goroutine
  without \<^verbatim>\<open>recover()\<close>, so the scrape ends the process right after the resets.
  \<^verbatim>\<open>post\<close>, on the same failure, returns status 0 and the error.
\<close>

theorem get_transport_failure_panics:
  "get (\<lambda>_. DoError) url = Inl NilPointerDereference
   \<and> metric_fetch cfg (\<lambda>_. DoError) n st = Some (Panicked (reset_metrics st))
   \<and> post_result PostDoError = (0, True)"
  by (simp add: get_def metric_fetch_def fetch_body_def fetch_hosts_def post_result_def)


text \<open>
  Claim C10. A stack, service or instance that is in its table and is observed again:
  afterwards the object behind its pointer has the observed \<^verbatim>\<open>Id\<close>, \<^verbatim>\<open>Type\<close> and
  \<^verbatim>\<open>State\<close>, and the tables are what they were, so the entry under its name is the same
  struct value as before, with the \<^verbatim>\<open>System\<close> (and, for an instance, the
  \<^verbatim>\<open>StartupTime\<close>) it had, whatever was observed. Over a whole scrape every entry of
  every table that existed before keeps its struct value.
\<close>

theorem struct_fields_not_written_back:
  fixes pro :: project and stk :: stack and svc :: service
  shows
    "(\<forall>tk. map_of (stack_maps st (project_Stacks pro)) (dName d) = Some tk \<longrightarrow>
        (let st' = project_fetch_item pro d st
         in objId (objects st' (stack_object tk)) = dID d
          \<and> Type (objects st' (stack_object tk)) = dType d
          \<and> State (objects st' (stack_object tk)) = dState d
          \<and> stack_maps st' = stack_maps st
          \<and> map_of (stack_maps st' (project_Stacks pro)) (dName d) = Some tk))
   \<and> (\<forall>tk. map_of (service_maps st (stack_Services stk)) (dName d) = Some tk \<longrightarrow>
        (let st' = stack_fetch_item stk d st
         in objId (objects st' (service_object tk)) = dID d
          \<and> Type (objects st' (service_object tk)) = dType d
          \<and> State (objects st' (service_object tk)) = dState d
          \<and> service_maps st' = service_maps st
          \<and> map_of (service_maps st' (stack_Services stk)) (dName d) = Some tk))
   \<and> (\<forall>tk. map_of (instance_maps st (service_Instances svc)) (dName d) = Some tk \<longrightarrow>
        (let st' = service_fetch_item svc d st
         in objId (objects st' (instance_object tk)) = dID d
          \<and> Type (objects st' (instance_object tk)) = dType d
          \<and> State (objects st' (instance_object tk)) = dState d
          \<and> instance_maps st' = instance_maps st
          \<and> map_of (instance_maps st' (service_Instances svc)) (dName d) = Some tk))
   \<and> (\<forall>oc. metric_fetch cfg api n st = Some oc \<longrightarrow> tables_kept st (world_of oc))"
  unfolding Let_def
  by (intro conjI allI impI)
     (simp_all add: project_fetch_item_Some_objects project_fetch_item_Some_frame
        stack_fetch_item_Some_objects stack_fetch_item_Some_frame
        service_fetch_item_Some_objects service_fetch_item_Some_frame tables_kept_metric_fetch)

theorem struct_fields_not_written_back_witness:
  "map_of (stack_maps example_world (project_Stacks env_project))
     (dName ((stack_datum ''web'' ''active'' ''healthy'')\<lparr>dSystem := True, dID := ''1st9''\<rparr>)) = Some web_stack
   \<and> objId (objects (project_fetch_item env_project
         ((stack_datum ''web'' ''active'' ''healthy'')\<lparr>dSystem := True, dID := ''1st9''\<rparr>) example_world)
         (stack_object web_stack)) = ''1st9''
   \<and> map_of (stack_maps (project_fetch_item env_project
         ((stack_datum ''web'' ''active'' ''healthy'')\<lparr>dSystem := True, dID := ''1st9''\<rparr>) example_world)
         (project_Stacks env_project)) ''web'' = Some web_stack
   \<and> stack_System web_stack = False
   \<and> map_of (service_maps example_world (stack_Services web_stack))
        (dName ((service_datum ''api'' ''active'' ''healthy'')\<lparr>dSystem := True\<rparr>)) = Some api_service
   \<and> service_maps (stack_fetch_item web_stack
         ((service_datum ''api'' ''active'' ''healthy'')\<lparr>dSystem := True\<rparr>) example_world)
        = service_maps example_world
   \<and> map_of (instance_maps example_world (service_Instances api_service))
        (dName ((instance_datum ''box'' ''running'' 1800 2000)\<lparr>dSystem := True\<rparr>)) = Some box_instance
   \<and> map_of (instance_maps (service_fetch_item api_service
         ((instance_datum ''box'' ''running'' 1800 2000)\<lparr>dSystem := True\<rparr>) example_world)
         (service_Instances api_service)) ''box'' = Some box_instance
   \<and> instance_StartupTime box_instance = 250
   \<and> metric_fetch example_config (web_api ''upgrading'' ''healthy'') 1 example_world \<noteq> None
   \<and> map_of (stack_maps (scrape example_config (web_api ''upgrading'' ''healthy'') 1 example_world)
         (project_Stacks env_project)) ''web'' = Some web_stack"
proof -
  let ?d = "(stack_datum ''web'' ''active'' ''healthy'')\<lparr>dSystem := True, dID := ''1st9''\<rparr>"
  let ?e = "(service_datum ''api'' ''active'' ''healthy'')\<lparr>dSystem := True\<rparr>"
  let ?f = "(instance_datum ''box'' ''running'' 1800 2000)\<lparr>dSystem := True\<rparr>"
  let ?api = "web_api ''upgrading'' ''healthy''"
  have h1: "map_of (stack_maps example_world (project_Stacks env_project)) (dName ?d) = Some web_stack"
    and h2: "map_of (service_maps example_world (stack_Services web_stack)) (dName ?e) = Some api_service"
    and h3: "map_of (instance_maps example_world (service_Instances api_service)) (dName ?f) = Some box_instance"
    by (simp_all add: example_simps datum_simps)
  from example_scrape_returns obtain w
    where w: "metric_fetch example_config ?api 1 example_world = Some (Returned w)"
    by (rule returnsE)
  have h4: "project_Stacks env_project < fresh example_world"
    by (simp add: example_simps env_project_def)
  note T = struct_fields_not_written_back [of example_world env_project _ web_stack api_service
      example_config ?api 1]
  from T [of ?d] h1
  have A: "objId (objects (project_fetch_item env_project ?d example_world) (stack_object web_stack)) = ''1st9''"
    and B: "map_of (stack_maps (project_fetch_item env_project ?d example_world) (project_Stacks env_project)) ''web''
            = Some web_stack"
    by (simp_all add: Let_def datum_simps)
  from T [of ?e] h2
  have C: "service_maps (stack_fetch_item web_stack ?e example_world) = service_maps example_world"
    by (simp add: Let_def datum_simps)
  from T [of ?f] h3 w
  have D: "map_of (instance_maps (service_fetch_item api_service ?f example_world)
              (service_Instances api_service)) ''box'' = Some box_instance"
    and E: "tables_kept example_world w"
    by (simp_all add: Let_def datum_simps)
  from E h4 h1 have F: "map_of (stack_maps w (project_Stacks env_project)) ''web'' = Some web_stack"
    unfolding tables_kept_def by (simp add: datum_simps)
  have S: "scrape example_config ?api 1 example_world = w"
    using scrape_Some [OF w] by simp
  have N: "metric_fetch example_config ?api 1 example_world \<noteq> None"
    using w by simp
  have G: "stack_System web_stack = False" "instance_StartupTime box_instance = 250"
    by (simp_all add: web_stack_def box_instance_def)
  show ?thesis
    unfolding S
    using h1 h2 h3 A B C D F N G by blast
qed





text \<open>
  Claim C5, as the code has it. The counts are \<^verbatim>\<open>uint64\<close> and the walker only ever adds
  1 to them. Over one scrape, and over any number of successive scrape cycles, the
  \<^verbatim>\<open>BootstrapCount\<close> and \<^verbatim>\<open>FailureCount\<close> of every object that existed before are not
  smaller afterwards, provided no node observed in between had a stored count of
  \<open>2^64 - 1\<close>.
\<close>

theorem counts_do_not_decrease:
  "(\<forall>st'. scrape_cycles cfg n apis st = Some st' \<and> list_all below_max (observed st st') \<longrightarrow>
      (\<forall>p<fresh st. BootstrapCount (objects st p) \<le> BootstrapCount (objects st' p)
           \<and> FailureCount (objects st p) \<le> FailureCount (objects st' p)))
   \<and> (\<forall>oc. metric_fetch cfg api n st = Some oc \<and> list_all below_max (observed st (world_of oc)) \<longrightarrow>
      (\<forall>p<fresh st. BootstrapCount (objects st p) \<le> BootstrapCount (objects (world_of oc) p)
           \<and> FailureCount (objects st p) \<le> FailureCount (objects (world_of oc) p)))"
proof -
  have A: "\<forall>st'. scrape_cycles cfg n apis st = Some st' \<and> list_all below_max (observed st st') \<longrightarrow>
      (\<forall>p<fresh st. BootstrapCount (objects st p) \<le> BootstrapCount (objects st' p)
           \<and> FailureCount (objects st p) \<le> FailureCount (objects st' p))"
    using counts_grow_observed [OF counts_grow_scrape_cycles, of cfg n apis st] by blast
  have B: "\<forall>oc. metric_fetch cfg api n st = Some oc \<and> list_all below_max (observed st (world_of oc)) \<longrightarrow>
      (\<forall>p<fresh st. BootstrapCount (objects st p) \<le> BootstrapCount (objects (world_of oc) p)
           \<and> FailureCount (objects st p) \<le> FailureCount (objects (world_of oc) p))"
    using counts_grow_observed [OF counts_grow_metric_fetch, of cfg api n st] by blast
  show ?thesis by (rule conjI [OF A B])
qed

theorem counts_do_not_decrease_witness:
  "scrape_cycles example_config 1 [web_api ''upgrading'' ''healthy'', web_api ''active'' ''unhealthy'']
     example_world \<noteq> None
   \<and> list_all below_max (observed example_world
        (after_cycles example_config 1 [web_api ''upgrading'' ''healthy'', web_api ''active'' ''unhealthy'']
           example_world))
   \<and> stack_object web_stack < fresh example_world
   \<and> BootstrapCount (objects example_world (stack_object web_stack))
        \<le> BootstrapCount (objects
             (after_cycles example_config 1 [web_api ''upgrading'' ''healthy'', web_api ''active'' ''unhealthy'']
                example_world) (stack_object web_stack))
   \<and> FailureCount (objects example_world (stack_object web_stack))
        \<le> FailureCount (objects
             (after_cycles example_config 1 [web_api ''upgrading'' ''healthy'', web_api ''active'' ''unhealthy'']
                example_world) (stack_object web_stack))"
proof -
  let ?apis = "[web_api ''upgrading'' ''healthy'', web_api ''active'' ''unhealthy'']"
  from example_cycles obtain w where w: "scrape_cycles example_config 1 ?apis example_world = Some w"
    by blast
  then have S: "after_cycles example_config 1 ?apis example_world = w"
    by (simp add: after_cycles_def)
  have h1: "list_all below_max (observed example_world w)"
    using example_cycles_below_max by (simp only: S)
  have h2: "stack_object web_stack < fresh example_world"
    by (simp add: example_simps web_stack_def)
  from counts_do_not_decrease [of example_config 1 ?apis example_world] w h1 h2
  have "BootstrapCount (objects example_world (stack_object web_stack))
          \<le> BootstrapCount (objects w (stack_object web_stack))
      \<and> FailureCount (objects example_world (stack_object web_stack))
          \<le> FailureCount (objects w (stack_object web_stack))"
    by blast
  with example_cycles h1 h2 show ?thesis
    unfolding S by blast
qed

text \<open>
  The claim as stated fails at the largest \<^verbatim>\<open>uint64\<close>: a stack whose stored bootstrap
  count is \<open>2^64 - 1\<close> and that is observed \<open>active\<close> after \<open>upgrading\<close> has count 0 after
  the scrape.
\<close>

theorem bootstrap_count_wraps:
  "returns (metric_fetch example_config (web_api ''active'' ''healthy'') 1 full_world)
   \<and> BootstrapCount (objects full_world (stack_object web_stack)) = 18446744073709551615
   \<and> BootstrapCount (objects (scrape example_config (web_api ''active'' ''healthy'') 1 full_world)
        (stack_object web_stack)) = 0"
proof -
  have "BootstrapCount (objects full_world (stack_object web_stack)) = 18446744073709551615"
    by (simp add: full_world_def web_stack_def)
  with full_world_scrape full_world_wraps show ?thesis by blast
qed









end
